theory Spec2Isabelle
  imports
    Complex_Main
    "HOL-Library.Char_ord"
    "HOL-Library.List_Lexorder"
    "HOL-Library.Sublist"
    "HOL-Library.Multiset"
begin

section \<open>JavaScript values used by the page component\<close>

text \<open>
  The component under verification is the \<^verbatim>\<open>Home\<close> page, which the sources hold in
  two forms: \<^verbatim>\<open>src/unnamed/part_000\<close> and \<^verbatim>\<open>src/app/page.tsx\<close>. The two files agree on
  every function modelled here except \<^verbatim>\<open>handleSendMessage\<close> and the constant
  \<^verbatim>\<open>ITEMS_PER_PAGE\<close>; both forms are given where they differ.

  A \<^typ>\<open>string\<close> stands for a JavaScript string whose UTF-16 code units are all
  below 256; the order on \<^typ>\<open>char\<close> is the order of the code units, so the
  lexicographic order on \<^typ>\<open>string\<close> is the one of JavaScript's \<^verbatim>\<open><\<close> on strings.

  A JavaScript number is a \<^verbatim>\<open>jsnum\<close>: a binary64 value. A finite one is given by the
  rational it denotes; every operation that produces a number rounds its exact result
  to binary64 with \<open>round64\<close> below. Negative zero is identified with zero (the
  program never divides by a zero, the only operation that tells them apart).
\<close>

datatype jsnum = NaN | Fin rat | PosInf | NegInf

subsection \<open>Rounding to binary64\<close>

text \<open>The exponent of a rational: \<open>halvings x\<close> is the integer \<open>e \<ge> 0\<close> with
  \<open>2\<^sup>e \<le> x < 2\<^sup>e\<^sup>+\<^sup>1\<close> for \<open>x \<ge> 1\<close>, and \<open>doublings x\<close> the integer \<open>e < 0\<close> with the
  same property for \<open>0 < x < 1\<close>.\<close>

function halvings :: "rat \<Rightarrow> int" where
  "halvings x = (if x < 2 then 0 else halvings (x / 2) + 1)"
  by pat_completeness auto
termination
proof (relation "measure (\<lambda>x. nat \<lfloor>x\<rfloor>)")
  show "wf (measure (\<lambda>x :: rat. nat \<lfloor>x\<rfloor>))" by simp
next
  fix x :: rat
  assume "\<not> x < 2"
  then have "\<lfloor>x / 2\<rfloor> < \<lfloor>x\<rfloor>" and "0 < \<lfloor>x\<rfloor>" by linarith+
  then show "(x / 2, x) \<in> measure (\<lambda>x. nat \<lfloor>x\<rfloor>)" by simp
qed

function doublings :: "rat \<Rightarrow> int" where
  "doublings x = (if x \<le> 0 \<or> 1 \<le> x then 0 else doublings (2 * x) - 1)"
  by pat_completeness auto
termination
proof (relation "measure (\<lambda>x. nat \<lceil>1 / x\<rceil>)")
  show "wf (measure (\<lambda>x :: rat. nat \<lceil>1 / x\<rceil>))" by simp
next
  fix x :: rat
  assume "\<not> (x \<le> 0 \<or> 1 \<le> x)"
  then have x: "0 < x" "x < 1" by simp_all
  then have big: "1 < 1 / x" by simp
  have half: "1 / (2 * x) = (1 / x) / 2" by simp
  have two: "2 \<le> \<lceil>1 / x\<rceil>" using big by linarith
  have "(1 / x) / 2 \<le> of_int \<lceil>1 / x\<rceil> / 2" by simp
  also have "\<dots> \<le> of_int (\<lceil>1 / x\<rceil> - 1)" using two by simp
  finally have "\<lceil>(1 / x) / 2\<rceil> \<le> \<lceil>1 / x\<rceil> - 1" by (rule ceiling_le)
  then have "\<lceil>1 / (2 * x)\<rceil> < \<lceil>1 / x\<rceil>" by (simp only: half)
  then have "nat \<lceil>1 / (2 * x)\<rceil> < nat \<lceil>1 / x\<rceil>"
    using two x by (simp add: zless_nat_conj)
  then show "(2 * x, x) \<in> measure (\<lambda>x. nat \<lceil>1 / x\<rceil>)" by (simp only: in_measure)
qed

declare halvings.simps [simp del] doublings.simps [simp del]

text \<open>\<open>binade x\<close> is the exponent of \<open>x \<noteq> 0\<close>: \<open>2\<^sup>e \<le> |x| < 2\<^sup>e\<^sup>+\<^sup>1\<close> (lemma
  \<open>binade_bounds\<close> below).\<close>

definition binade :: "rat \<Rightarrow> int" where
  "binade x = (if 1 \<le> \<bar>x\<bar> then halvings \<bar>x\<bar> else doublings \<bar>x\<bar>)"

text \<open>The distance between neighbouring binary64 values at \<open>x\<close>: 53 significant bits,
  and the least exponent \<open>-1022\<close> (below it the values are subnormal).\<close>

definition quantum :: "rat \<Rightarrow> rat" where
  "quantum x = 2 powi (max (binade x) (- 1022) - 52)"

text \<open>The nearest integer, a tie going to the even one.\<close>

definition roundHalfEven :: "rat \<Rightarrow> int" where
  "roundHalfEven t =
     (let f = \<lfloor>t\<rfloor>;
          r = t - of_int f
      in if r < 1 / 2 then f
         else if 1 / 2 < r then f + 1
         else if even f then f else f + 1)"

text \<open>Round to nearest, ties to even. The rounded value \<open>y\<close> is an infinity when its
  magnitude is \<open>2\<^sup>1\<^sup>0\<^sup>2\<^sup>4\<close> or more, that is when its exponent is 1024 or more.\<close>

definition round64 :: "rat \<Rightarrow> jsnum" where
  "round64 x =
     (let y = of_int (roundHalfEven (x / quantum x)) * quantum x
      in if x = 0 \<or> y = 0 then Fin 0
         else if 1024 \<le> binade y then (if 0 < y then PosInf else NegInf)
         else Fin y)"

fun js_neg :: "jsnum \<Rightarrow> jsnum" where
  "js_neg NaN = NaN"
| "js_neg (Fin q) = Fin (- q)"
| "js_neg PosInf = NegInf"
| "js_neg NegInf = PosInf"

text \<open>\<^verbatim>\<open>x < y\<close> on numbers: false as soon as one operand is \<^verbatim>\<open>NaN\<close>.\<close>

fun num_less :: "jsnum \<Rightarrow> jsnum \<Rightarrow> bool" where
  "num_less (Fin a) (Fin b) = (a < b)"
| "num_less (Fin a) PosInf = True"
| "num_less NegInf (Fin b) = True"
| "num_less NegInf PosInf = True"
| "num_less _ _ = False"

text \<open>\<^verbatim>\<open>x / y\<close> and \<^verbatim>\<open>x * y\<close> for a finite, positive right operand that is a binary64
  value, which is all the program uses (\<^verbatim>\<open>(num / 10) * 100\<close>): the exact quotient or
  product, rounded.\<close>

fun js_div_pos :: "jsnum \<Rightarrow> rat \<Rightarrow> jsnum" where
  "js_div_pos (Fin a) d = round64 (a / d)"
| "js_div_pos x d = x"

fun js_mul_pos :: "jsnum \<Rightarrow> rat \<Rightarrow> jsnum" where
  "js_mul_pos (Fin a) m = round64 (a * m)"
| "js_mul_pos x m = x"

definition isNaN :: "jsnum \<Rightarrow> bool" where
  "isNaN n \<longleftrightarrow> n = NaN"

text \<open>Truthiness of a number: \<^verbatim>\<open>NaN\<close> and zero are falsy.\<close>

definition num_truthy :: "jsnum \<Rightarrow> bool" where
  "num_truthy n \<longleftrightarrow> n \<noteq> NaN \<and> n \<noteq> Fin 0"

text \<open>Truthiness of an optional string: \<^verbatim>\<open>undefined\<close> and \<^verbatim>\<open>''\<close> are falsy.\<close>

definition str_truthy :: "string option \<Rightarrow> bool" where
  "str_truthy v \<longleftrightarrow> (case v of None \<Rightarrow> False | Some s \<Rightarrow> s \<noteq> [])"

subsection \<open>Characters and trimming\<close>

text \<open>White space and line terminators below code unit 256: TAB, LF, VT, FF, CR, SP, NBSP.\<close>

definition isWhiteSpace :: "char \<Rightarrow> bool" where
  "isWhiteSpace c \<longleftrightarrow> (of_char c :: nat) \<in> {9, 10, 11, 12, 13, 32, 160}"

definition trimStart :: "string \<Rightarrow> string" where
  "trimStart s = dropWhile isWhiteSpace s"

definition trim :: "string \<Rightarrow> string" where
  "trim s = rev (dropWhile isWhiteSpace (rev (dropWhile isWhiteSpace s)))"

definition isDigit :: "char \<Rightarrow> bool" where
  "isDigit c \<longleftrightarrow> 48 \<le> (of_char c :: nat) \<and> (of_char c :: nat) \<le> 57"

definition digitVal :: "char \<Rightarrow> nat" where
  "digitVal c = of_char c - 48"

definition digitsVal :: "string \<Rightarrow> nat" where
  "digitsVal ds = foldl (\<lambda>n c. 10 * n + digitVal c) 0 ds"

subsection \<open>\<^verbatim>\<open>parseFloat\<close> and the conversion of a string to a number\<close>

text \<open>
  \<^verbatim>\<open>ExponentPart\<close> of the grammar \<^verbatim>\<open>StrDecimalLiteral\<close>, longest match: the exponent
  and the rest of the input; exponent 0 and the whole input when there is none.
\<close>

definition parseExponent :: "string \<Rightarrow> int \<times> string" where
  "parseExponent s =
     (case s of
        [] \<Rightarrow> (0, s)
      | c # t \<Rightarrow>
          if c = CHR ''e'' \<or> c = CHR ''E'' then
            (case t of
               [] \<Rightarrow> (0, s)
             | d # u \<Rightarrow>
                 if d = CHR ''+'' \<and> takeWhile isDigit u \<noteq> [] then
                   (int (digitsVal (takeWhile isDigit u)), dropWhile isDigit u)
                 else if d = CHR ''-'' \<and> takeWhile isDigit u \<noteq> [] then
                   (- int (digitsVal (takeWhile isDigit u)), dropWhile isDigit u)
                 else if isDigit d then
                   (int (digitsVal (takeWhile isDigit t)), dropWhile isDigit t)
                 else (0, s))
          else (0, s))"

definition pow10 :: "int \<Rightarrow> rat" where
  "pow10 e = (if 0 \<le> e then 10 ^ nat e else 1 / 10 ^ nat (- e))"

text \<open>
  The longest prefix that is a \<^verbatim>\<open>StrUnsignedDecimalLiteral\<close>
  (\<^verbatim>\<open>Infinity\<close>, \<^verbatim>\<open>digits . digits? exp?\<close>, \<^verbatim>\<open>. digits exp?\<close>, \<^verbatim>\<open>digits exp?\<close>):
  its value, which is the exact decimal value rounded to binary64, and the rest of
  the input, or \<open>None\<close> when no prefix is one.
\<close>

definition parseUnsigned :: "string \<Rightarrow> (jsnum \<times> string) option" where
  "parseUnsigned s =
     (if take 8 s = ''Infinity'' then Some (PosInf, drop 8 s)
      else
        let ip = takeWhile isDigit s;
            r = dropWhile isDigit s;
            hasDot = (case r of
                        [] \<Rightarrow> False
                      | c # t \<Rightarrow> c = CHR ''.'' \<and> (ip \<noteq> [] \<or> takeWhile isDigit t \<noteq> []));
            fp = (if hasDot then takeWhile isDigit (tl r) else []);
            r' = (if hasDot then dropWhile isDigit (tl r) else r)
        in if ip = [] \<and> fp = [] then None
           else
             let (e, rest) = parseExponent r'
             in Some (round64 ((of_nat (digitsVal ip)
                                 + of_nat (digitsVal fp) / 10 ^ length fp) * pow10 e), rest))"

text \<open>\<^verbatim>\<open>StrDecimalLiteral\<close>: an optional sign, then the unsigned literal.\<close>

definition parseStrDecimalLiteral :: "string \<Rightarrow> (jsnum \<times> string) option" where
  "parseStrDecimalLiteral s =
     (case s of
        [] \<Rightarrow> None
      | c # t \<Rightarrow>
          if c = CHR ''+'' then parseUnsigned t
          else if c = CHR ''-'' then map_option (\<lambda>(v, rest). (js_neg v, rest)) (parseUnsigned t)
          else parseUnsigned s)"

text \<open>\<^verbatim>\<open>parseFloat(s)\<close>: leading white space is skipped, the longest numeric prefix is
  read, anything after it is ignored; \<^verbatim>\<open>NaN\<close> when there is no numeric prefix.\<close>

definition parseFloat :: "string \<Rightarrow> jsnum" where
  "parseFloat s =
     (case parseStrDecimalLiteral (trimStart s) of
        None \<Rightarrow> NaN
      | Some (v, rest) \<Rightarrow> v)"

text \<open>Hexadecimal, octal and binary integer literals (\<^verbatim>\<open>0x1F\<close>, \<^verbatim>\<open>0o17\<close>, \<^verbatim>\<open>0b101\<close>),
  which the conversion of a whole string to a number accepts and \<^verbatim>\<open>parseFloat\<close> does not.\<close>

definition radixDigit :: "nat \<Rightarrow> char \<Rightarrow> nat option" where
  "radixDigit b c =
     (let n = (of_char c :: nat);
          v = (if 48 \<le> n \<and> n \<le> 57 then Some (n - 48)
               else if 97 \<le> n \<and> n \<le> 102 then Some (n - 87)
               else if 65 \<le> n \<and> n \<le> 70 then Some (n - 55)
               else None)
      in case v of None \<Rightarrow> None | Some d \<Rightarrow> if d < b then Some d else None)"

definition radixVal :: "nat \<Rightarrow> string \<Rightarrow> nat option" where
  "radixVal b ds =
     (if ds \<noteq> [] \<and> list_all (\<lambda>c. radixDigit b c \<noteq> None) ds
      then Some (foldl (\<lambda>n c. b * n + the (radixDigit b c)) 0 ds)
      else None)"

definition parseNonDecimal :: "string \<Rightarrow> nat option" where
  "parseNonDecimal s =
     (case s of
        z # p # ds \<Rightarrow>
          if z \<noteq> CHR ''0'' then None
          else if p = CHR ''x'' \<or> p = CHR ''X'' then radixVal 16 ds
          else if p = CHR ''o'' \<or> p = CHR ''O'' then radixVal 8 ds
          else if p = CHR ''b'' \<or> p = CHR ''B'' then radixVal 2 ds
          else None
      | _ \<Rightarrow> None)"

text \<open>The conversion \<^verbatim>\<open>ToNumber\<close> of a string, which \<^verbatim>\<open><\<close> applies to a string operand
  when the other operand is not a string: the whole trimmed string must be a numeric
  literal; the empty string is 0.\<close>

definition stringToNumber :: "string \<Rightarrow> jsnum" where
  "stringToNumber s =
     (let t = trim s
      in if t = [] then Fin 0
         else case parseNonDecimal t of
                Some n \<Rightarrow> round64 (of_nat n)
              | None \<Rightarrow>
                  (case parseStrDecimalLiteral t of
                     None \<Rightarrow> NaN
                   | Some (v, rest) \<Rightarrow> if rest = [] then v else NaN))"

section \<open>Data model\<close>

text \<open>The interfaces of the source. \<^verbatim>\<open>'52_week_high'\<close> and \<^verbatim>\<open>'52_week_low'\<close> are not
  Isabelle identifiers and become \<open>week52_high\<close> and \<open>week52_low\<close>; the property names
  used for lookup keep the source's spelling (see \<open>investmentObject\<close>).\<close>

record FourPillarScore =
  historical_returns :: string
  risk_adjusted_returns :: string
  fundamentals :: string
  dividends :: string
  overall_score :: string

record KeyMetrics =
  current_price :: string
  pe_ratio :: string
  dividend_yield :: string
  week52_high :: string
  week52_low :: string

record RankedInvestment =
  symbol :: string
  name :: string
  market :: string
  asset_type :: string
  four_pillar_score :: FourPillarScore
  recommendation :: string
  recommendation_rationale :: string
  key_metrics :: KeyMetrics

text \<open>The fields the code tests for presence (\<^verbatim>\<open>data.conversational_insight || ...\<close>,
  \<^verbatim>\<open>analysisData?.ranked_investments\<close>, \<^verbatim>\<open>analysisData?.csv_export_data\<close>) are options:
  \<open>None\<close> is \<^verbatim>\<open>undefined\<close>.\<close>

record AnalysisResult =
  conversational_insight :: "string option"
  analysis_summary :: "string option"
  ranked_investments :: "RankedInvestment list option"
  chart_data :: "(string list \<times> rat list) option"
  csv_export_data :: "string option"

record AgentMetadata =
  agent_name :: string
  meta_timestamp :: string
  markets_analyzed :: "string list"
  analysis_type :: "string option"

datatype role = user | assistant

text \<open>\<open>timestamp\<close> is the value of \<^verbatim>\<open>new Date()\<close>, in milliseconds.\<close>

record ChatMessage =
  role :: role
  content :: string
  timestamp :: nat
  data :: "AnalysisResult option"
  metadata :: "AgentMetadata option"

datatype direction = asc | desc

record SortConfig =
  key :: string
  direction :: direction

text \<open>The React state of \<^verbatim>\<open>Home\<close> that the modelled functions read or write.\<close>

record AppState =
  loading :: bool
  chatMessages :: "ChatMessage list"
  inputMessage :: string
  analysisData :: "AnalysisResult option"
  currentPage :: int
  selectedMarkets :: "string list"
  selectedAssetTypes :: "string list"
  riskLevel :: string
  sortConfig :: SortConfig

text \<open>
  Modelled from the spec: the result type of \<^verbatim>\<open>callAIAgent\<close>, whose module
  \<^verbatim>\<open>@/lib/aiAgent\<close> is not among the sources. The call either throws or returns an object
  with \<^verbatim>\<open>success\<close> and \<^verbatim>\<open>response\<close>; the response carries \<^verbatim>\<open>status\<close> and the optional
  \<^verbatim>\<open>result\<close>, \<^verbatim>\<open>metadata\<close> and \<^verbatim>\<open>message\<close>.
\<close>

record AgentPayload =
  status :: string
  result :: "AnalysisResult option"
  payload_metadata :: "AgentMetadata option"
  message :: "string option"

record AgentResult =
  success :: bool
  response :: AgentPayload

datatype agent_outcome = Throws | Returns AgentResult

section \<open>Filtering and sorting\<close>

subsection \<open>Resolving the sort key\<close>

datatype jsval =
  VUndefined
| VString string
| VNumber jsnum
| VObject "(string \<times> jsval) list"

definition investmentObject :: "RankedInvestment \<Rightarrow> jsval" where
  "investmentObject iv =
     VObject
       [(''symbol'', VString (symbol iv)),
        (''name'', VString (name iv)),
        (''market'', VString (market iv)),
        (''asset_type'', VString (asset_type iv)),
        (''four_pillar_score'',
           VObject
             [(''historical_returns'', VString (historical_returns (four_pillar_score iv))),
              (''risk_adjusted_returns'', VString (risk_adjusted_returns (four_pillar_score iv))),
              (''fundamentals'', VString (fundamentals (four_pillar_score iv))),
              (''dividends'', VString (dividends (four_pillar_score iv))),
              (''overall_score'', VString (overall_score (four_pillar_score iv)))]),
        (''recommendation'', VString (recommendation iv)),
        (''recommendation_rationale'', VString (recommendation_rationale iv)),
        (''key_metrics'',
           VObject
             [(''current_price'', VString (current_price (key_metrics iv))),
              (''pe_ratio'', VString (pe_ratio (key_metrics iv))),
              (''dividend_yield'', VString (dividend_yield (key_metrics iv))),
              (''52_week_high'', VString (week52_high (key_metrics iv))),
              (''52_week_low'', VString (week52_low (key_metrics iv)))])]"

text \<open>A canonical array index: a decimal numeral without a leading zero.\<close>

definition isCanonicalIndex :: "string \<Rightarrow> bool" where
  "isCanonicalIndex k \<longleftrightarrow> k \<noteq> [] \<and> list_all isDigit k \<and> (length k = 1 \<or> hd k \<noteq> CHR ''0'')"

text \<open>
  \<^verbatim>\<open>aVal?.[key]\<close>. Own properties only: the fields of an object, and \<^verbatim>\<open>length\<close> and the
  indices of a string. A member inherited from a prototype (\<^verbatim>\<open>toString\<close>, \<^verbatim>\<open>constructor\<close>,
  ...) is given as \<^verbatim>\<open>undefined\<close>: such a member is the same value for both operands of
  the comparator below, which then returns 0, as it does for \<^verbatim>\<open>undefined\<close>.
\<close>

fun getProp :: "jsval \<Rightarrow> string \<Rightarrow> jsval" where
  "getProp VUndefined k = VUndefined"
| "getProp (VObject ps) k = (case map_of ps k of None \<Rightarrow> VUndefined | Some v \<Rightarrow> v)"
| "getProp (VString s) k =
     (if k = ''length'' then VNumber (Fin (of_nat (length s)))
      else if isCanonicalIndex k \<and> digitsVal k < length s then VString [s ! digitsVal k]
      else VUndefined)"
| "getProp (VNumber n) k = VUndefined"

text \<open>\<^verbatim>\<open>str.split(sep)\<close> for a one-character separator: never the empty list.\<close>

fun split :: "char \<Rightarrow> string \<Rightarrow> string list" where
  "split sep [] = [[]]"
| "split sep (c # cs) =
     (if c = sep then [] # split sep cs
      else (case split sep cs of [] \<Rightarrow> [[c]] | w # ws \<Rightarrow> (c # w) # ws))"

text \<open>The loop \<^verbatim>\<open>for (const key of keys) aVal = aVal?.[key]\<close>.\<close>

definition resolvePath :: "string \<Rightarrow> RankedInvestment \<Rightarrow> jsval" where
  "resolvePath k iv = foldl getProp (investmentObject iv) (split CHR ''.'' k)"

text \<open>\<^verbatim>\<open>if (typeof aVal === 'string') aVal = parseFloat(aVal) || aVal\<close>.\<close>

definition coerce :: "jsval \<Rightarrow> jsval" where
  "coerce v =
     (case v of
        VString s \<Rightarrow> if num_truthy (parseFloat s) then VNumber (parseFloat s) else VString s
      | _ \<Rightarrow> v)"

definition sortValue :: "string \<Rightarrow> RankedInvestment \<Rightarrow> jsval" where
  "sortValue k iv = coerce (resolvePath k iv)"

subsection \<open>The relational operator\<close>

definition toPrimitive :: "jsval \<Rightarrow> jsval" where
  "toPrimitive v = (case v of VObject ps \<Rightarrow> VString ''[object Object]'' | _ \<Rightarrow> v)"

fun toNumber :: "jsval \<Rightarrow> jsnum" where
  "toNumber VUndefined = NaN"
| "toNumber (VString s) = stringToNumber s"
| "toNumber (VNumber n) = n"
| "toNumber (VObject ps) = NaN"

text \<open>\<^verbatim>\<open>a < b\<close>: two strings compare by code units; otherwise both operands become numbers.\<close>

definition js_less :: "jsval \<Rightarrow> jsval \<Rightarrow> bool" where
  "js_less a b =
     (case (toPrimitive a, toPrimitive b) of
        (VString s, VString t) \<Rightarrow> s < t
      | (p, q) \<Rightarrow> num_less (toNumber p) (toNumber q))"

subsection \<open>The comparator and the sort\<close>

definition compareInvestments :: "SortConfig \<Rightarrow> RankedInvestment \<Rightarrow> RankedInvestment \<Rightarrow> int" where
  "compareInvestments cfg a b =
     (let aVal = sortValue (key cfg) a;
          bVal = sortValue (key cfg) b
      in if js_less aVal bVal then (if direction cfg = asc then - 1 else 1)
         else if js_less bVal aVal then (if direction cfg = asc then 1 else - 1)
         else 0)"

text \<open>
  \<^verbatim>\<open>Array.prototype.sort(cmp)\<close> as the stable insertion sort: an element is placed before
  the first element it does not compare greater than. The language fixes the result of
  \<^verbatim>\<open>sort\<close> (and requires it to be stable) when \<open>cmp\<close> is a consistent comparator on the
  elements; for those lists every stable sort gives this result. For a comparator that
  is not consistent on the list the order is left to the engine, and this function is
  then one possible order, not necessarily the engine's; the result is a permutation
  of the input in every case.
\<close>

fun insertBy :: "('a \<Rightarrow> 'a \<Rightarrow> int) \<Rightarrow> 'a \<Rightarrow> 'a list \<Rightarrow> 'a list" where
  "insertBy cmp x [] = [x]"
| "insertBy cmp x (y # ys) = (if cmp x y \<le> 0 then x # y # ys else y # insertBy cmp x ys)"

definition sortBy :: "('a \<Rightarrow> 'a \<Rightarrow> int) \<Rightarrow> 'a list \<Rightarrow> 'a list" where
  "sortBy cmp xs = foldr (insertBy cmp) xs []"

text \<open>The predicate of \<^verbatim>\<open>ranked_investments.filter(inv => ...)\<close>.\<close>

definition passesFilter :: "string list \<Rightarrow> string list \<Rightarrow> RankedInvestment \<Rightarrow> bool" where
  "passesFilter markets assetTypes iv =
     (let marketMatch = (length markets = 0 \<or> market iv \<in> set markets);
          assetMatch = (length assetTypes = 0 \<or> asset_type iv \<in> set assetTypes)
      in marketMatch \<and> assetMatch)"

definition getFilteredAndSortedInvestments :: "AppState \<Rightarrow> RankedInvestment list" where
  "getFilteredAndSortedInvestments s =
     (case analysisData s of
        None \<Rightarrow> []
      | Some d \<Rightarrow>
          (case ranked_investments d of
             None \<Rightarrow> []
           | Some invs \<Rightarrow>
               sortBy (compareInvestments (sortConfig s))
                 (filter (passesFilter (selectedMarkets s) (selectedAssetTypes s)) invs)))"

section \<open>Pagination\<close>

text \<open>\<^verbatim>\<open>ITEMS_PER_PAGE\<close> is 10 in \<^verbatim>\<open>src/unnamed/part_000\<close> and 20 in \<^verbatim>\<open>src/app/page.tsx\<close>;
  the functions below take it as the parameter \<open>pageSize\<close>.\<close>

definition ITEMS_PER_PAGE :: nat where
  "ITEMS_PER_PAGE = 10"

definition ITEMS_PER_PAGE_page_tsx :: nat where
  "ITEMS_PER_PAGE_page_tsx = 20"

text \<open>\<^verbatim>\<open>Math.ceil(filteredInvestments.length / ITEMS_PER_PAGE)\<close>, for a positive page size
  (both constants are). For a length below \<open>2\<^sup>5\<^sup>2\<close> the rounded quotient has the ceiling
  of the exact one.\<close>

definition totalPages :: "nat \<Rightarrow> 'a list \<Rightarrow> int" where
  "totalPages pageSize xs = \<lceil>(of_nat (length xs) :: rat) / of_nat pageSize\<rceil>"

text \<open>\<^verbatim>\<open>xs.slice(start, end)\<close> for integers: a negative index counts from the end, both
  indices are clamped to the array, and an empty range gives the empty array.\<close>

definition slice :: "'a list \<Rightarrow> int \<Rightarrow> int \<Rightarrow> 'a list" where
  "slice xs start stop =
     (let len = int (length xs);
          k = (if start < 0 then max (len + start) 0 else min start len);
          final = (if stop < 0 then max (len + stop) 0 else min stop len)
      in take (nat (final - k)) (drop (nat k) xs))"

definition paginatedInvestments :: "nat \<Rightarrow> int \<Rightarrow> 'a list \<Rightarrow> 'a list" where
  "paginatedInvestments pageSize page xs =
     slice xs ((page - 1) * int pageSize) (page * int pageSize)"

text \<open>The two page buttons: \<^verbatim>\<open>setCurrentPage(p => Math.max(1, p - 1))\<close> and
  \<^verbatim>\<open>setCurrentPage(p => Math.min(totalPages, p + 1))\<close>.\<close>

definition previousPage :: "int \<Rightarrow> int" where
  "previousPage p = max 1 (p - 1)"

definition nextPage :: "int \<Rightarrow> int \<Rightarrow> int" where
  "nextPage pages p = min pages (p + 1)"

section \<open>The derivation on a store of arrays\<close>

text \<open>
  Arrays are objects: \<^verbatim>\<open>filter\<close> and \<^verbatim>\<open>slice\<close> allocate a new array, \<^verbatim>\<open>sort\<close> sorts its
  receiver in place and returns it. A store is the list of the arrays allocated so
  far; an address is an index into it.
\<close>

type_synonym store = "RankedInvestment list list"

definition array_filter :: "(RankedInvestment \<Rightarrow> bool) \<Rightarrow> nat \<Rightarrow> store \<Rightarrow> nat \<times> store" where
  "array_filter P a h = (length h, h @ [filter P (h ! a)])"

definition array_sort ::
  "(RankedInvestment \<Rightarrow> RankedInvestment \<Rightarrow> int) \<Rightarrow> nat \<Rightarrow> store \<Rightarrow> nat \<times> store" where
  "array_sort cmp a h = (a, h[a := sortBy cmp (h ! a)])"

definition array_slice :: "int \<Rightarrow> int \<Rightarrow> nat \<Rightarrow> store \<Rightarrow> nat \<times> store" where
  "array_slice start stop a h = (length h, h @ [slice (h ! a) start stop])"

text \<open>\<open>ri\<close> is the address of \<^verbatim>\<open>analysisData.ranked_investments\<close>, \<open>None\<close> when
  \<^verbatim>\<open>!analysisData?.ranked_investments\<close>; the filters and the sort key come from the state.\<close>

definition getFilteredAndSortedInvestments_store ::
  "AppState \<Rightarrow> nat option \<Rightarrow> store \<Rightarrow> nat \<times> store" where
  "getFilteredAndSortedInvestments_store s ri h =
     (case ri of
        None \<Rightarrow> (length h, h @ [[]])
      | Some a \<Rightarrow>
          let (filtered, h1) =
                array_filter (passesFilter (selectedMarkets s) (selectedAssetTypes s)) a h
          in array_sort (compareInvestments (sortConfig s)) filtered h1)"

text \<open>One rendering: the filtered and sorted array, then the page cut out of it. The
  result is the address of \<^verbatim>\<open>paginatedInvestments\<close>, \<^verbatim>\<open>totalPages\<close>, and the store.\<close>

definition renderTable :: "nat \<Rightarrow> AppState \<Rightarrow> nat option \<Rightarrow> store \<Rightarrow> (nat \<times> int) \<times> store" where
  "renderTable pageSize s ri h =
     (let (filteredInvestments, h1) = getFilteredAndSortedInvestments_store s ri h;
          pages = totalPages pageSize (h1 ! filteredInvestments);
          (page, h2) = array_slice ((currentPage s - 1) * int pageSize)
                         (currentPage s * int pageSize) filteredInvestments h1
      in ((page, pages), h2))"

definition storedInvestments :: "AppState \<Rightarrow> RankedInvestment list option" where
  "storedInvestments s = (case analysisData s of None \<Rightarrow> None | Some d \<Rightarrow> ranked_investments d)"

section \<open>Scores as percentages\<close>

text \<open>\<^verbatim>\<open>isNaN(num) ? 0 : (num / 10) * 100\<close>.\<close>

definition scoreToPercentage :: "string \<Rightarrow> jsnum" where
  "scoreToPercentage score =
     (let num = parseFloat score
      in if isNaN num then Fin 0 else js_mul_pos (js_div_pos num 10) 100)"

definition pillarMap :: "(string \<times> rat) list" where
  "pillarMap =
     [(''Excellent'', 95),
      (''Very Good'', 85),
      (''Strong'', 80),
      (''Good'', 70),
      (''Moderate'', 60),
      (''Solid (hard asset)'', 75),
      (''Index-based'', 85),
      (''N/A'', 0)]"

text \<open>
  \<^verbatim>\<open>map\<close> is an object literal, so \<^verbatim>\<open>map[pillar]\<close> also finds the members it inherits
  from \<^verbatim>\<open>Object.prototype\<close>. Each of them is a function or an object, hence truthy, and
  \<^verbatim>\<open>map[pillar] || 50\<close> returns it in place of a number.
\<close>

definition objectPrototypeKeys :: "string list" where
  "objectPrototypeKeys =
     [''constructor'', ''__defineGetter__'', ''__defineSetter__'', ''hasOwnProperty'',
      ''__lookupGetter__'', ''__lookupSetter__'', ''isPrototypeOf'', ''propertyIsEnumerable'',
      ''toString'', ''valueOf'', ''__proto__'', ''toLocaleString'']"

datatype percentage = Percent rat | InheritedMember string

text \<open>\<^verbatim>\<open>map[pillar] || 50\<close>: an own entry that is 0 is falsy and gives 50 as well.\<close>

definition pillarToPercentage :: "string \<Rightarrow> percentage" where
  "pillarToPercentage pillar =
     (case map_of pillarMap pillar of
        Some v \<Rightarrow> if v \<noteq> 0 then Percent v else Percent 50
      | None \<Rightarrow>
          if pillar \<in> set objectPrototypeKeys then InheritedMember pillar
          else Percent 50)"

section \<open>CSV export\<close>

text \<open>What \<^verbatim>\<open>handleExportCSV\<close> hands to the browser: the parts and the type of the
  \<^verbatim>\<open>Blob\<close>, and the \<^verbatim>\<open>download\<close> name of the anchor it clicks.\<close>

record Download =
  blob_parts :: "string list"
  blob_type :: string
  download :: string

text \<open>\<open>isoNow\<close> is \<^verbatim>\<open>new Date().toISOString()\<close>. \<open>None\<close>: the early \<^verbatim>\<open>return\<close>.\<close>

definition handleExportCSV :: "string \<Rightarrow> AppState \<Rightarrow> Download option" where
  "handleExportCSV isoNow s =
     (case analysisData s of
        None \<Rightarrow> None
      | Some d \<Rightarrow>
          if \<not> str_truthy (csv_export_data d) then None
          else Some \<lparr>blob_parts = [the (csv_export_data d)],
                     blob_type = ''text/csv'',
                     download = ''financial_analysis_'' @ hd (split CHR ''T'' isoNow) @ ''.csv''\<rparr>)"

section \<open>Sending a message to the agent\<close>

definition AGENT_ID :: string where
  "AGENT_ID = ''6986ef8566daebcd26150dc3''"

text \<open>\<^verbatim>\<open>v || d\<close> for an optional string \<open>v\<close> and a string \<open>d\<close>.\<close>

definition js_or :: "string option \<Rightarrow> string \<Rightarrow> string" where
  "js_or v d = (if str_truthy v then the v else d)"

text \<open>\<^verbatim>\<open>setChatMessages(prev => [...prev, m])\<close>.\<close>

definition appendMessage :: "ChatMessage \<Rightarrow> AppState \<Rightarrow> AppState" where
  "appendMessage m s = s\<lparr>chatMessages := chatMessages s @ [m]\<rparr>"

definition userMessage :: "nat \<Rightarrow> string \<Rightarrow> ChatMessage" where
  "userMessage t messageToSend =
     \<lparr>role = user, content = messageToSend, timestamp = t, data = None, metadata = None\<rparr>"

text \<open>The message of the \<^verbatim>\<open>catch\<close> block.\<close>

definition networkErrorMessage :: "nat \<Rightarrow> ChatMessage" where
  "networkErrorMessage t =
     \<lparr>role = assistant, content = ''Network error. Please try again.'', timestamp = t,
      data = None, metadata = None\<rparr>"

text \<open>The message of the \<^verbatim>\<open>else\<close> branch.\<close>

definition errorMessage :: "nat \<Rightarrow> AgentResult \<Rightarrow> ChatMessage" where
  "errorMessage t r =
     \<lparr>role = assistant,
      content = js_or (message (response r))
                  ''Sorry, I encountered an error processing your request.'',
      timestamp = t, data = None, metadata = None\<rparr>"

text \<open>The assistant message of the success branch in \<^verbatim>\<open>src/unnamed/part_000\<close>.\<close>

definition assistantMessage :: "nat \<Rightarrow> AgentResult \<Rightarrow> AnalysisResult \<Rightarrow> ChatMessage" where
  "assistantMessage t r d =
     \<lparr>role = assistant,
      content = js_or (conversational_insight d) (js_or (analysis_summary d) ''Analysis complete.''),
      timestamp = t, data = Some d, metadata = payload_metadata (response r)\<rparr>"

text \<open>
  \<^verbatim>\<open>handleSendMessage\<close> of \<^verbatim>\<open>src/unnamed/part_000\<close>. \<open>callAIAgent\<close> is the agent, \<open>tSent\<close>
  and \<open>tReply\<close> are the two readings of the clock, \<open>msg\<close> is the optional argument
  \<^verbatim>\<open>message\<close>. The result is the state once the handler has finished, and the list of
  the calls made to the agent.

  Reading \<^verbatim>\<open>data.conversational_insight\<close> when \<^verbatim>\<open>result.response.result\<close> is \<^verbatim>\<open>undefined\<close>
  throws a \<^verbatim>\<open>TypeError\<close> inside the \<^verbatim>\<open>try\<close> block, before any state is set, and the
  \<^verbatim>\<open>catch\<close> block handles it like a failed call.
\<close>

definition handleSendMessage ::
  "(string \<Rightarrow> string \<Rightarrow> agent_outcome) \<Rightarrow> nat \<Rightarrow> nat \<Rightarrow> string option \<Rightarrow> AppState
     \<Rightarrow> AppState \<times> (string \<times> string) list" where
  "handleSendMessage callAIAgent tSent tReply msg s =
     (let messageToSend = js_or msg (trim (inputMessage s))
      in if messageToSend = [] \<and> \<not> str_truthy msg then (s, [])
         else
           let s1 = (appendMessage (userMessage tSent messageToSend) (s\<lparr>loading := True\<rparr>))
                      \<lparr>inputMessage := []\<rparr>;
               s2 = (case callAIAgent messageToSend AGENT_ID of
                       Throws \<Rightarrow> appendMessage (networkErrorMessage tReply) s1
                     | Returns r \<Rightarrow>
                         if success r \<and> status (response r) = ''success'' then
                           (case result (response r) of
                              None \<Rightarrow> appendMessage (networkErrorMessage tReply) s1
                            | Some d \<Rightarrow>
                                (appendMessage (assistantMessage tReply r d) s1)
                                  \<lparr>analysisData := Some d, currentPage := 1\<rparr>)
                         else appendMessage (errorMessage tReply r) s1)
           in (s2\<lparr>loading := False\<rparr>, [(messageToSend, AGENT_ID)]))"

text \<open>
  \<^verbatim>\<open>handleSendMessage\<close> of \<^verbatim>\<open>src/app/page.tsx\<close>: the assistant message falls back from
  the insight to the default text directly, and the page is not reset. (The counts it
  accumulates with \<^verbatim>\<open>reduce\<close> are a local value that is never used.)
\<close>

definition assistantMessage_page_tsx ::
  "nat \<Rightarrow> AgentResult \<Rightarrow> AnalysisResult \<Rightarrow> ChatMessage" where
  "assistantMessage_page_tsx t r d =
     \<lparr>role = assistant,
      content = js_or (conversational_insight d) ''Analysis complete.'',
      timestamp = t, data = Some d, metadata = payload_metadata (response r)\<rparr>"

definition handleSendMessage_page_tsx ::
  "(string \<Rightarrow> string \<Rightarrow> agent_outcome) \<Rightarrow> nat \<Rightarrow> nat \<Rightarrow> string option \<Rightarrow> AppState
     \<Rightarrow> AppState \<times> (string \<times> string) list" where
  "handleSendMessage_page_tsx callAIAgent tSent tReply msg s =
     (let messageToSend = js_or msg (trim (inputMessage s))
      in if messageToSend = [] \<and> \<not> str_truthy msg then (s, [])
         else
           let s1 = (appendMessage (userMessage tSent messageToSend) (s\<lparr>loading := True\<rparr>))
                      \<lparr>inputMessage := []\<rparr>;
               s2 = (case callAIAgent messageToSend AGENT_ID of
                       Throws \<Rightarrow> appendMessage (networkErrorMessage tReply) s1
                     | Returns r \<Rightarrow>
                         if success r \<and> status (response r) = ''success'' then
                           (case result (response r) of
                              None \<Rightarrow> appendMessage (networkErrorMessage tReply) s1
                            | Some d \<Rightarrow>
                                (appendMessage (assistantMessage_page_tsx tReply r d) s1)
                                  \<lparr>analysisData := Some d\<rparr>)
                         else appendMessage (errorMessage tReply r) s1)
           in (s2\<lparr>loading := False\<rparr>, [(messageToSend, AGENT_ID)]))"

text \<open>The state set up by the \<^verbatim>\<open>useState\<close> calls.\<close>

definition initialState :: AppState where
  "initialState =
     \<lparr>loading = False, chatMessages = [], inputMessage = [], analysisData = None,
      currentPage = 1,
      selectedMarkets = [''NSE'', ''BSE'', ''CMX'', ''US''],
      selectedAssetTypes = [''stock'', ''mutual_fund'', ''etf''],
      riskLevel = ''Medium'',
      sortConfig = \<lparr>key = ''four_pillar_score.overall_score'', direction = desc\<rparr>\<rparr>"

section \<open>The specification's filter predicate\<close>

text \<open>
  The rule of the specification for \<^verbatim>\<open>filter(investments, filterState)\<close>, in its words: an
  investment passes iff (\<open>markets\<close> is empty or its market is in the set) and (the same
  rule for the asset type). The two selections are sets here.
\<close>

definition matchesFilterState :: "string set \<Rightarrow> string set \<Rightarrow> RankedInvestment \<Rightarrow> bool" where
  "matchesFilterState markets assetTypes iv \<longleftrightarrow>
     (markets = {} \<or> market iv \<in> markets) \<and> (assetTypes = {} \<or> asset_type iv \<in> assetTypes)"

section \<open>Lists on which the comparator is consistent\<close>

text \<open>
  The comparator is a consistent one (an order with ties) on a list whose sort values
  are all numbers (other than \<^verbatim>\<open>NaN\<close>, which no sort value is) or all strings; then
  \<^verbatim>\<open>sort\<close> has one possible result. A number
  against a string that is not numeric compares as equal in both directions, which is
  not transitive, so a list that mixes them is left out.
\<close>

definition isNumber :: "jsval \<Rightarrow> bool" where
  "isNumber v = (case v of VNumber n \<Rightarrow> n \<noteq> NaN | _ \<Rightarrow> False)"

definition isString :: "jsval \<Rightarrow> bool" where
  "isString v = (case v of VString s \<Rightarrow> True | _ \<Rightarrow> False)"

definition sameKind :: "jsval \<Rightarrow> jsval \<Rightarrow> bool" where
  "sameKind v w \<longleftrightarrow> (isNumber v \<and> isNumber w) \<or> (isString v \<and> isString w)"

definition uniformKeys :: "string \<Rightarrow> RankedInvestment list \<Rightarrow> bool" where
  "uniformKeys k xs \<longleftrightarrow>
     list_all (\<lambda>iv. isNumber (sortValue k iv)) xs \<or> list_all (\<lambda>iv. isString (sortValue k iv)) xs"

section \<open>Sample data\<close>

text \<open>Concrete values on which the theorems below are instantiated.\<close>

definition sampleInvestment :: "string \<Rightarrow> string \<Rightarrow> string \<Rightarrow> string \<Rightarrow> RankedInvestment" where
  "sampleInvestment sy mkt ty score =
     \<lparr>symbol = sy, name = sy, market = mkt, asset_type = ty,
      four_pillar_score =
        \<lparr>historical_returns = ''Good'', risk_adjusted_returns = ''Strong'',
         fundamentals = ''Excellent'', dividends = ''N/A'', overall_score = score\<rparr>,
      recommendation = ''Buy'', recommendation_rationale = ''Steady growth'',
      key_metrics =
        \<lparr>current_price = ''100'', pe_ratio = ''20'', dividend_yield = ''2%'',
         week52_high = ''120'', week52_low = ''80''\<rparr>\<rparr>"

definition sampleResult :: AnalysisResult where
  "sampleResult =
     \<lparr>conversational_insight = Some [],
      analysis_summary = Some ''Two candidates ranked.'',
      ranked_investments =
        Some [sampleInvestment ''TCS'' ''NSE'' ''stock'' ''9'',
              sampleInvestment ''AAPL'' ''US'' ''etf'' ''10''],
      chart_data = None,
      csv_export_data = Some ''symbol,score''\<rparr>"

definition sampleReply :: "string \<Rightarrow> AnalysisResult option \<Rightarrow> string option \<Rightarrow> AgentResult" where
  "sampleReply st res text =
     \<lparr>success = True,
      response = \<lparr>status = st, result = res, payload_metadata = None, message = text\<rparr>\<rparr>"

definition sampleState :: AppState where
  "sampleState = initialState\<lparr>analysisData := Some sampleResult\<rparr>"

text \<open>A store whose only array, at address 0, is the list of investments of
  \<open>sampleResult\<close>.\<close>

definition sampleStore :: store where
  "sampleStore =
     [[sampleInvestment ''TCS'' ''NSE'' ''stock'' ''9'',
       sampleInvestment ''AAPL'' ''US'' ''etf'' ''10'']]"

section \<open>Properties of \<^verbatim>\<open>handleSendMessage\<close>\<close>

text \<open>
  Claim C9. Submitting when no message argument is given and the trimmed text of the
  input field is empty is a complete no-op, in either form of the handler: the state is
  returned as it was (no conversation entry, \<open>loading\<close> not set, analysis result and page
  unchanged) and the agent is not called.
\<close>

theorem submit_empty_is_noop:
  assumes "h = handleSendMessage \<or> h = handleSendMessage_page_tsx"
    and "msg = None" and "trim (inputMessage s) = []"
  shows "h callAIAgent tSent tReply msg s = (s, [])"
  using assms
  by (auto simp add: handleSendMessage_def handleSendMessage_page_tsx_def js_or_def
        str_truthy_def)

theorem submit_empty_is_noop_witness:
  "trim (inputMessage (initialState\<lparr>inputMessage := ''  ''\<rparr>)) = []
   \<and> handleSendMessage (\<lambda>m a. Throws) 1 2 None (initialState\<lparr>inputMessage := ''  ''\<rparr>)
       = (initialState\<lparr>inputMessage := ''  ''\<rparr>, [])"
proof -
  have blank: "trim (inputMessage (initialState\<lparr>inputMessage := ''  ''\<rparr>)) = []"
    by (simp add: trim_def isWhiteSpace_def)
  show ?thesis
    using blank
      submit_empty_is_noop [where h = handleSendMessage and callAIAgent = "\<lambda>m a. Throws"
        and tSent = 1 and tReply = 2, OF disjI1 [OF refl] refl blank]
    by simp
qed

text \<open>
  Outside the success branch the two forms of the handler are the same function.
\<close>

lemma handlers_agree_off_success:
  assumes "\<forall>r d. callAIAgent (js_or msg (trim (inputMessage s))) AGENT_ID = Returns r \<longrightarrow>
             success r \<longrightarrow> status (response r) = ''success'' \<longrightarrow> result (response r) \<noteq> Some d"
  shows "handleSendMessage_page_tsx callAIAgent tSent tReply msg s
           = handleSendMessage callAIAgent tSent tReply msg s"
  using assms
  by (auto simp add: handleSendMessage_def handleSendMessage_page_tsx_def Let_def
        split: agent_outcome.splits option.splits)

text \<open>
  The success branch of \<^verbatim>\<open>src/unnamed/part_000\<close>: for a non-empty message, a call that
  returns with \<^verbatim>\<open>success\<close>, status \<^verbatim>\<open>'success'\<close> and a result \<open>d\<close>, the handler appends the
  user's message and one assistant message, stores \<open>d\<close> as the analysis result and sets
  the page to 1.
\<close>

lemma submit_success_state:
  assumes "js_or msg (trim (inputMessage s)) = m" and "m \<noteq> []"
    and "callAIAgent m AGENT_ID = Returns r"
    and "success r" and "status (response r) = ''success''"
    and "result (response r) = Some d"
  shows "fst (handleSendMessage callAIAgent tSent tReply msg s)
           = s\<lparr>loading := False,
                chatMessages := chatMessages s @ [userMessage tSent m, assistantMessage tReply r d],
                inputMessage := [],
                analysisData := Some d,
                currentPage := 1\<rparr>"
  using assms by (simp add: handleSendMessage_def Let_def appendMessage_def)

lemma assistantMessage_content:
  "role (assistantMessage t r d) = assistant
   \<and> content (assistantMessage t r d)
       = (if str_truthy (conversational_insight d) then the (conversational_insight d)
          else if str_truthy (analysis_summary d) then the (analysis_summary d)
          else ''Analysis complete.'')"
  by (simp add: assistantMessage_def js_or_def)

text \<open>
  Claim C1, on the code. \<^verbatim>\<open>src/unnamed/part_000\<close> does what the claim says (the two
  lemmas above). \<^verbatim>\<open>src/app/page.tsx\<close> does not: for a successful reply whose insight is
  empty and whose summary is \<^verbatim>\<open>Two candidates ranked.\<close>, received on page 3, it shows the
  default text and stays on page 3, where \<^verbatim>\<open>src/unnamed/part_000\<close> shows the summary and
  goes to page 1. Both store the new analysis result.
\<close>

theorem submit_success_page_tsx_diverges:
  "content (last (chatMessages (fst (handleSendMessage_page_tsx
       (\<lambda>m a. Returns (sampleReply ''success'' (Some sampleResult) None)) 1 2
       (Some ''rank them'') (initialState\<lparr>currentPage := 3\<rparr>))))) = ''Analysis complete.''
   \<and> currentPage (fst (handleSendMessage_page_tsx
       (\<lambda>m a. Returns (sampleReply ''success'' (Some sampleResult) None)) 1 2
       (Some ''rank them'') (initialState\<lparr>currentPage := 3\<rparr>))) = 3
   \<and> analysisData (fst (handleSendMessage_page_tsx
       (\<lambda>m a. Returns (sampleReply ''success'' (Some sampleResult) None)) 1 2
       (Some ''rank them'') (initialState\<lparr>currentPage := 3\<rparr>))) = Some sampleResult
   \<and> content (last (chatMessages (fst (handleSendMessage
       (\<lambda>m a. Returns (sampleReply ''success'' (Some sampleResult) None)) 1 2
       (Some ''rank them'') (initialState\<lparr>currentPage := 3\<rparr>))))) = ''Two candidates ranked.''
   \<and> currentPage (fst (handleSendMessage
       (\<lambda>m a. Returns (sampleReply ''success'' (Some sampleResult) None)) 1 2
       (Some ''rank them'') (initialState\<lparr>currentPage := 3\<rparr>))) = 1"
  by (simp add: handleSendMessage_page_tsx_def handleSendMessage_def sampleReply_def js_or_def
        str_truthy_def appendMessage_def initialState_def Let_def assistantMessage_page_tsx_def
        assistantMessage_def sampleResult_def)

text \<open>
  Claim C3. For a non-empty message and a call to the agent that throws, either form of
  the handler appends the user's message, with role \<open>user\<close>, and the network-error
  message, with role \<open>assistant\<close>: the assistant entries of the conversation are those
  it had, followed by this one. The stored analysis result is left as it was; and whatever
  the agent does (throw, return a failure, return a success), \<open>loading\<close> is false when
  the handler has finished. (The transport failure is the call that throws: only the
  \<^verbatim>\<open>catch\<close> block produces the network-error message; a returned object whose
  \<^verbatim>\<open>success\<close> is false goes through the \<^verbatim>\<open>else\<close> branch.)
\<close>

theorem transport_failure:
  assumes "h = handleSendMessage \<or> h = handleSendMessage_page_tsx"
    and "js_or msg (trim (inputMessage s)) = m" and "m \<noteq> []"
  shows "(callAIAgent m AGENT_ID = Throws \<longrightarrow>
            chatMessages (fst (h callAIAgent tSent tReply msg s))
              = chatMessages s @ [userMessage tSent m, networkErrorMessage tReply]
            \<and> role (userMessage tSent m) = user
            \<and> content (userMessage tSent m) = m
            \<and> role (networkErrorMessage tReply) = assistant
            \<and> content (networkErrorMessage tReply) = ''Network error. Please try again.''
            \<and> filter (\<lambda>e. role e = assistant) (chatMessages (fst (h callAIAgent tSent tReply msg s)))
                = filter (\<lambda>e. role e = assistant) (chatMessages s) @ [networkErrorMessage tReply]
            \<and> analysisData (fst (h callAIAgent tSent tReply msg s)) = analysisData s)
         \<and> loading (fst (h callAIAgent tSent tReply msg s)) = False"
  using assms
  by (auto simp add: handleSendMessage_def handleSendMessage_page_tsx_def Let_def
        appendMessage_def networkErrorMessage_def userMessage_def
        split: agent_outcome.splits option.splits)

theorem transport_failure_witness:
  "js_or (Some ''rank them'') (trim (inputMessage (initialState\<lparr>analysisData := Some sampleResult\<rparr>)))
     = ''rank them''
   \<and> ''rank them'' \<noteq> []
   \<and> chatMessages (fst (handleSendMessage (\<lambda>m a. Throws) 1 2 (Some ''rank them'')
                           (initialState\<lparr>analysisData := Some sampleResult\<rparr>)))
       = [userMessage 1 ''rank them'', networkErrorMessage 2]
   \<and> map role (chatMessages (fst (handleSendMessage (\<lambda>m a. Throws) 1 2 (Some ''rank them'')
                           (initialState\<lparr>analysisData := Some sampleResult\<rparr>))))
       = [user, assistant]
   \<and> filter (\<lambda>e. role e = assistant)
        (chatMessages (fst (handleSendMessage (\<lambda>m a. Throws) 1 2 (Some ''rank them'')
                           (initialState\<lparr>analysisData := Some sampleResult\<rparr>))))
       = [networkErrorMessage 2]
   \<and> analysisData (fst (handleSendMessage (\<lambda>m a. Throws) 1 2 (Some ''rank them'')
                           (initialState\<lparr>analysisData := Some sampleResult\<rparr>)))
       = Some sampleResult
   \<and> loading (fst (handleSendMessage (\<lambda>m a. Throws) 1 2 (Some ''rank them'')
                           (initialState\<lparr>analysisData := Some sampleResult\<rparr>))) = False"
proof -
  have sent: "js_or (Some ''rank them'')
                (trim (inputMessage (initialState\<lparr>analysisData := Some sampleResult\<rparr>)))
              = ''rank them''"
    by (simp add: js_or_def str_truthy_def)
  have nonempty: "''rank them'' \<noteq> []" by simp
  show ?thesis
    using sent
      transport_failure [where h = handleSendMessage and callAIAgent = "\<lambda>m a. Throws"
        and tSent = 1 and tReply = 2, OF disjI1 [OF refl] sent nonempty]
    by (simp add: initialState_def)
qed

text \<open>
  Claim C7. For a non-empty message and a call that returns without both \<^verbatim>\<open>success\<close> and
  status \<^verbatim>\<open>'success'\<close>, either form of the handler appends the user's message, with role
  \<open>user\<close>, and one message with role \<open>assistant\<close>, whose text is the agent's \<^verbatim>\<open>message\<close>,
  or the default text when the message is absent or empty: the assistant entries of the
  conversation are those it had, followed by this one. The stored analysis result is
  left as it was.
\<close>

theorem logical_failure:
  assumes "h = handleSendMessage \<or> h = handleSendMessage_page_tsx"
    and "js_or msg (trim (inputMessage s)) = m" and "m \<noteq> []"
    and "callAIAgent m AGENT_ID = Returns r"
    and "\<not> (success r \<and> status (response r) = ''success'')"
  shows "chatMessages (fst (h callAIAgent tSent tReply msg s))
           = chatMessages s @ [userMessage tSent m, errorMessage tReply r]
         \<and> role (userMessage tSent m) = user
         \<and> content (userMessage tSent m) = m
         \<and> role (errorMessage tReply r) = assistant
         \<and> content (errorMessage tReply r)
             = (case message (response r) of
                  None \<Rightarrow> ''Sorry, I encountered an error processing your request.''
                | Some text \<Rightarrow>
                    if text = [] then ''Sorry, I encountered an error processing your request.''
                    else text)
         \<and> filter (\<lambda>e. role e = assistant) (chatMessages (fst (h callAIAgent tSent tReply msg s)))
             = filter (\<lambda>e. role e = assistant) (chatMessages s) @ [errorMessage tReply r]
         \<and> analysisData (fst (h callAIAgent tSent tReply msg s)) = analysisData s"
  using assms
  by (auto simp add: handleSendMessage_def handleSendMessage_page_tsx_def Let_def
        appendMessage_def errorMessage_def userMessage_def js_or_def str_truthy_def
        split: agent_outcome.splits option.splits)

theorem logical_failure_witness:
  "js_or None (trim (inputMessage (initialState\<lparr>inputMessage := '' rank them ''\<rparr>))) = ''rank them''
   \<and> ''rank them'' \<noteq> []
   \<and> \<not> (success (sampleReply ''failure'' None (Some ''Quota exceeded''))
         \<and> status (response (sampleReply ''failure'' None (Some ''Quota exceeded''))) = ''success'')
   \<and> map content (chatMessages (fst (handleSendMessage_page_tsx
         (\<lambda>m a. Returns (sampleReply ''failure'' None (Some ''Quota exceeded''))) 1 2 None
         (initialState\<lparr>inputMessage := '' rank them ''\<rparr>))))
       = [''rank them'', ''Quota exceeded'']
   \<and> map role (chatMessages (fst (handleSendMessage_page_tsx
         (\<lambda>m a. Returns (sampleReply ''failure'' None (Some ''Quota exceeded''))) 1 2 None
         (initialState\<lparr>inputMessage := '' rank them ''\<rparr>))))
       = [user, assistant]
   \<and> map content (filter (\<lambda>e. role e = assistant) (chatMessages (fst (handleSendMessage_page_tsx
         (\<lambda>m a. Returns (sampleReply ''failure'' None (Some ''Quota exceeded''))) 1 2 None
         (initialState\<lparr>inputMessage := '' rank them ''\<rparr>)))))
       = [''Quota exceeded'']
   \<and> analysisData (fst (handleSendMessage_page_tsx
         (\<lambda>m a. Returns (sampleReply ''failure'' None (Some ''Quota exceeded''))) 1 2 None
         (initialState\<lparr>inputMessage := '' rank them ''\<rparr>))) = None"
proof -
  have sent: "js_or None (trim (inputMessage (initialState\<lparr>inputMessage := '' rank them ''\<rparr>)))
              = ''rank them''"
    by (simp add: js_or_def str_truthy_def trim_def isWhiteSpace_def)
  have nonempty: "''rank them'' \<noteq> []" by simp
  have failed: "\<not> (success (sampleReply ''failure'' None (Some ''Quota exceeded''))
                  \<and> status (response (sampleReply ''failure'' None (Some ''Quota exceeded'')))
                      = ''success'')"
    by (simp add: sampleReply_def)
  show ?thesis
    using sent failed
      logical_failure [where h = handleSendMessage_page_tsx
        and callAIAgent = "\<lambda>m a. Returns (sampleReply ''failure'' None (Some ''Quota exceeded''))"
        and tSent = 1 and tReply = 2, OF disjI2 [OF refl] sent nonempty refl failed]
    by (simp add: initialState_def sampleReply_def)
qed

section \<open>Properties of the export\<close>

text \<open>
  Claim C10. \<^verbatim>\<open>handleExportCSV\<close> produces a download exactly when there is an analysis
  result whose \<^verbatim>\<open>csv_export_data\<close> is a non-empty string, and then the blob consists of
  that string, unchanged, with type \<^verbatim>\<open>text/csv\<close>; in every other case (no analysis
  result, no CSV field, the empty string) it returns without producing anything. It is
  a total function: no case raises an error.
\<close>

theorem export_csv:
  "(\<forall>d csv. analysisData s = Some d \<longrightarrow> csv_export_data d = Some csv \<longrightarrow> csv \<noteq> [] \<longrightarrow>
      (\<exists>e. handleExportCSV isoNow s = Some e \<and> blob_parts e = [csv] \<and> blob_type e = ''text/csv''))
   \<and> (\<not> (\<exists>d csv. analysisData s = Some d \<and> csv_export_data d = Some csv \<and> csv \<noteq> []) \<longrightarrow>
        handleExportCSV isoNow s = None)"
  by (auto simp add: handleExportCSV_def str_truthy_def split: option.splits)

theorem export_csv_witness:
  "handleExportCSV ''2026-11-02T10:15:00.000Z'' initialState = None
   \<and> handleExportCSV ''2026-11-02T10:15:00.000Z''
        (initialState\<lparr>analysisData := Some (sampleResult\<lparr>csv_export_data := Some []\<rparr>)\<rparr>) = None
   \<and> (\<exists>e. handleExportCSV ''2026-11-02T10:15:00.000Z''
              (initialState\<lparr>analysisData := Some sampleResult\<rparr>) = Some e
          \<and> blob_parts e = [''symbol,score''] \<and> blob_type e = ''text/csv'')"
proof -
  have none: "handleExportCSV ''2026-11-02T10:15:00.000Z'' initialState = None"
    using export_csv [of initialState "''2026-11-02T10:15:00.000Z''"]
    by (simp add: initialState_def)
  have empty: "handleExportCSV ''2026-11-02T10:15:00.000Z''
        (initialState\<lparr>analysisData := Some (sampleResult\<lparr>csv_export_data := Some []\<rparr>)\<rparr>) = None"
    using export_csv [of "initialState\<lparr>analysisData := Some (sampleResult\<lparr>csv_export_data := Some []\<rparr>)\<rparr>"
        "''2026-11-02T10:15:00.000Z''"]
    by simp
  have some: "\<exists>e. handleExportCSV ''2026-11-02T10:15:00.000Z''
              (initialState\<lparr>analysisData := Some sampleResult\<rparr>) = Some e
          \<and> blob_parts e = [''symbol,score''] \<and> blob_type e = ''text/csv''"
    using export_csv [of "initialState\<lparr>analysisData := Some sampleResult\<rparr>"
        "''2026-11-02T10:15:00.000Z''"]
    by (simp add: sampleResult_def)
  from none empty some show ?thesis by simp
qed

text \<open>The name of the file is built from the date part of the ISO time stamp.\<close>

lemma export_csv_file_name:
  "map_option download (handleExportCSV ''2026-11-02T10:15:00.000Z''
       (initialState\<lparr>analysisData := Some sampleResult\<rparr>))
     = Some ''financial_analysis_2026-11-02.csv''"
  by (simp add: handleExportCSV_def str_truthy_def sampleResult_def)

section \<open>Properties of the filter\<close>

lemma passesFilter_iff:
  "passesFilter ms ts iv \<longleftrightarrow> matchesFilterState (set ms) (set ts) iv"
  by (simp add: passesFilter_def matchesFilterState_def)

lemma getFilteredAndSortedInvestments_stages:
  "getFilteredAndSortedInvestments s
     = sortBy (compareInvestments (sortConfig s))
         (filter (passesFilter (selectedMarkets s) (selectedAssetTypes s))
            (case storedInvestments s of None \<Rightarrow> [] | Some invs \<Rightarrow> invs))"
  by (simp add: getFilteredAndSortedInvestments_def storedInvestments_def sortBy_def
        split: option.splits)

text \<open>
  Claim C6. The filter stage keeps exactly the investments that satisfy the
  specification's predicate, in their order: it is the subsequence of those with
  (markets empty or market selected) and (asset types empty or asset type selected).
  With the markets \<^verbatim>\<open>['NSE']\<close> and no asset type selected only the NSE investments pass,
  and an empty selection on an axis matches everything on that axis. The list that
  \<^verbatim>\<open>getFilteredAndSortedInvestments\<close> returns is the sort of this subsequence.
\<close>

theorem filter_is_spec_subsequence:
  "filter (passesFilter ms ts) xs = filter (matchesFilterState (set ms) (set ts)) xs
   \<and> subseq (filter (passesFilter ms ts) xs) xs
   \<and> filter (passesFilter [''NSE''] []) xs = filter (\<lambda>iv. market iv = ''NSE'') xs
   \<and> filter (passesFilter [] ts) xs = filter (\<lambda>iv. ts = [] \<or> asset_type iv \<in> set ts) xs
   \<and> filter (passesFilter ms []) xs = filter (\<lambda>iv. ms = [] \<or> market iv \<in> set ms) xs
   \<and> filter (passesFilter [] []) xs = xs
   \<and> getFilteredAndSortedInvestments s
       = sortBy (compareInvestments (sortConfig s))
           (filter (matchesFilterState (set (selectedMarkets s)) (set (selectedAssetTypes s)))
              (case storedInvestments s of None \<Rightarrow> [] | Some invs \<Rightarrow> invs))"
  by (simp add: passesFilter_iff [abs_def] getFilteredAndSortedInvestments_stages
        matchesFilterState_def [abs_def])

theorem filter_is_spec_subsequence_witness:
  "filter (passesFilter [''NSE''] [])
     [sampleInvestment ''TCS'' ''NSE'' ''stock'' ''9'',
      sampleInvestment ''AAPL'' ''US'' ''etf'' ''10'',
      sampleInvestment ''INFY'' ''NSE'' ''stock'' ''8'']
   = [sampleInvestment ''TCS'' ''NSE'' ''stock'' ''9'',
      sampleInvestment ''INFY'' ''NSE'' ''stock'' ''8'']"
proof -
  have "filter (passesFilter [''NSE''] [])
          [sampleInvestment ''TCS'' ''NSE'' ''stock'' ''9'',
           sampleInvestment ''AAPL'' ''US'' ''etf'' ''10'',
           sampleInvestment ''INFY'' ''NSE'' ''stock'' ''8'']
        = filter (\<lambda>iv. market iv = ''NSE'')
            [sampleInvestment ''TCS'' ''NSE'' ''stock'' ''9'',
             sampleInvestment ''AAPL'' ''US'' ''etf'' ''10'',
             sampleInvestment ''INFY'' ''NSE'' ''stock'' ''8'']"
    using filter_is_spec_subsequence by blast
  then show ?thesis by (simp add: sampleInvestment_def)
qed

section \<open>Properties of the pagination\<close>

lemma totalPages_bounds:
  assumes "0 < p"
  shows "int (length xs) \<le> totalPages p xs * int p"
    and "totalPages p xs * int p < int (length xs) + int p"
proof -
  let ?q = "(of_nat (length xs) :: rat) / of_nat p"
  have pos: "(0::rat) < of_nat p" using assms by simp
  have "?q \<le> of_int (totalPages p xs)"
    unfolding totalPages_def by (rule le_of_int_ceiling)
  then have "(of_nat (length xs) :: rat) \<le> of_int (totalPages p xs) * of_nat p"
    using pos by (simp add: pos_divide_le_eq)
  then have "(of_int (int (length xs)) :: rat) \<le> of_int (totalPages p xs * int p)"
    by simp
  then show "int (length xs) \<le> totalPages p xs * int p"
    by (simp only: of_int_le_iff)
  have "of_int (totalPages p xs) < ?q + 1"
    unfolding totalPages_def using ceiling_correct [of ?q] by linarith
  then have "of_int (totalPages p xs) * (of_nat p :: rat) < (?q + 1) * of_nat p"
    using pos by (simp only: mult_less_cancel_right_pos)
  also have "(?q + 1) * of_nat p = (of_nat (length xs) :: rat) + of_nat p"
    using pos by (simp add: field_simps)
  finally have "(of_int (totalPages p xs * int p) :: rat) < of_int (int (length xs) + int p)"
    by simp
  then show "totalPages p xs * int p < int (length xs) + int p"
    by (simp only: of_int_less_iff)
qed

lemma totalPages_empty: "totalPages p [] = 0"
  by (simp add: totalPages_def)

lemma totalPages_pos:
  assumes "0 < p" and "xs \<noteq> []"
  shows "1 \<le> totalPages p xs"
proof -
  have "0 < int (length xs)" using assms by simp
  also have "\<dots> \<le> totalPages p xs * int p" using totalPages_bounds(1) [OF assms(1)] .
  finally have "0 < totalPages p xs * int p" .
  then have "0 < totalPages p xs" using assms(1) by (simp add: zero_less_mult_iff)
  then show ?thesis by simp
qed

text \<open>From page 1 upwards the slice is the window of \<open>p\<close> items that starts after the
  first \<open>(page - 1) * p\<close> ones.\<close>

lemma paginated_from_page_one:
  assumes "1 \<le> page"
  shows "paginatedInvestments p page xs = take p (drop (nat (page - 1) * p) xs)"
proof -
  have a: "\<not> (page - 1) * int p < 0" using assms by (simp add: mult_less_0_iff)
  have b: "\<not> page * int p < 0" using assms by (simp add: mult_less_0_iff)
  show ?thesis
  proof (cases "(page - 1) * int p \<le> int (length xs)")
    case True
    have k: "nat ((page - 1) * int p) = nat (page - 1) * p"
      using assms by (simp add: nat_mult_distrib)
    have "min (page * int p) (int (length xs)) - (page - 1) * int p
            = min (int p) (int (length xs) - (page - 1) * int p)"
      by (simp add: algebra_simps min_def)
    then have "nat (min (page * int p) (int (length xs)) - min ((page - 1) * int p) (int (length xs)))
           = min p (length xs - nat ((page - 1) * int p))"
      using True a by (simp add: min_def) linarith
    then show ?thesis
      using a b True k
      by (simp add: paginatedInvestments_def slice_def Let_def min_def split: if_splits)
  next
    case False
    moreover have "int (nat (page - 1) * p) = (page - 1) * int p"
      using assms by simp
    ultimately have "length xs \<le> nat (page - 1) * p"
      by linarith
    then show ?thesis
      using a b False
      by (simp add: paginatedInvestments_def slice_def Let_def)
  qed
qed

text \<open>
  Claim C2, as the code has it. For a page size \<open>p > 0\<close>, \<open>totalPages\<close> is the ceiling
  of \<open>n / p\<close> (the least \<open>k\<close> with \<open>n \<le> k * p\<close>), which is 0, not 1, exactly for the
  empty list. The page is not clamped: a page between 1 and \<open>totalPages\<close> yields the
  window of up to \<open>p\<close> items that starts after the first \<open>(page - 1) * p\<close> ones, which is
  not empty, and a page beyond \<open>totalPages\<close> yields the empty list. No page raises an
  error.
\<close>

theorem pagination:
  assumes "0 < p"
  shows "int (length xs) \<le> totalPages p xs * int p
         \<and> totalPages p xs * int p < int (length xs) + int p
         \<and> (totalPages p xs = 0 \<longleftrightarrow> xs = [])
         \<and> (1 \<le> page \<and> page \<le> totalPages p xs \<longrightarrow>
              paginatedInvestments p page xs = take p (drop (nat (page - 1) * p) xs)
              \<and> paginatedInvestments p page xs \<noteq> [])
         \<and> (totalPages p xs < page \<longrightarrow> paginatedInvestments p page xs = [])"
proof -
  note b = totalPages_bounds [OF assms, of xs]
  have zero: "totalPages p xs = 0 \<longleftrightarrow> xs = []"
  proof (cases "xs = []")
    case True
    then show ?thesis by (simp add: totalPages_empty)
  next
    case False
    then show ?thesis using totalPages_pos [OF assms False] by simp
  qed
  have inside: "paginatedInvestments p page xs = take p (drop (nat (page - 1) * p) xs)
                \<and> paginatedInvestments p page xs \<noteq> []"
    if "1 \<le> page" and "page \<le> totalPages p xs"
  proof -
    have "(page - 1) * int p \<le> (totalPages p xs - 1) * int p"
      using that by (simp add: mult_right_mono)
    also have "\<dots> < int (length xs)"
      using b(2) by (simp add: algebra_simps)
    finally have "(page - 1) * int p < int (length xs)" .
    moreover have "int (nat (page - 1) * p) = (page - 1) * int p"
      using that by simp
    ultimately have "nat (page - 1) * p < length xs" by linarith
    then show ?thesis
      using paginated_from_page_one [OF that(1), of p xs] assms by simp
  qed
  have beyond: "paginatedInvestments p page xs = []" if "totalPages p xs < page"
  proof -
    have "0 \<le> totalPages p xs * int p" using b(1) by linarith
    then have "0 \<le> totalPages p xs" using assms by (simp add: zero_le_mult_iff)
    with that have one: "1 \<le> page" by linarith
    have "totalPages p xs * int p \<le> (page - 1) * int p"
      using that by (simp add: mult_right_mono)
    with b(1) have "int (length xs) \<le> (page - 1) * int p" by linarith
    moreover have "int (nat (page - 1) * p) = (page - 1) * int p"
      using one by simp
    ultimately have "length xs \<le> nat (page - 1) * p" by linarith
    then show ?thesis
      using paginated_from_page_one [OF one, of p xs] by simp
  qed
  from b zero inside beyond show ?thesis by blast
qed

theorem pagination_witness:
  "(0::nat) < 2
   \<and> totalPages 2 [sampleInvestment ''TCS'' ''NSE'' ''stock'' ''9'',
                    sampleInvestment ''AAPL'' ''US'' ''etf'' ''10'',
                    sampleInvestment ''INFY'' ''NSE'' ''stock'' ''8''] = 2
   \<and> paginatedInvestments 2 2 [sampleInvestment ''TCS'' ''NSE'' ''stock'' ''9'',
                    sampleInvestment ''AAPL'' ''US'' ''etf'' ''10'',
                    sampleInvestment ''INFY'' ''NSE'' ''stock'' ''8'']
       = [sampleInvestment ''INFY'' ''NSE'' ''stock'' ''8'']
   \<and> paginatedInvestments 2 3 [sampleInvestment ''TCS'' ''NSE'' ''stock'' ''9'',
                    sampleInvestment ''AAPL'' ''US'' ''etf'' ''10'',
                    sampleInvestment ''INFY'' ''NSE'' ''stock'' ''8''] = []"
proof -
  let ?xs = "[sampleInvestment ''TCS'' ''NSE'' ''stock'' ''9'',
              sampleInvestment ''AAPL'' ''US'' ''etf'' ''10'',
              sampleInvestment ''INFY'' ''NSE'' ''stock'' ''8'']"
  have p: "(0::nat) < 2" by simp
  have t: "totalPages 2 ?xs = 2"
    using pagination [OF p, of ?xs 2] by simp
  have "paginatedInvestments 2 2 ?xs = take 2 (drop (nat (2 - 1) * 2) ?xs)"
    using pagination [OF p, of ?xs 2] t by simp
  then have inside: "paginatedInvestments 2 2 ?xs = [sampleInvestment ''INFY'' ''NSE'' ''stock'' ''8'']"
    by simp
  have beyond: "paginatedInvestments 2 3 ?xs = []"
    using pagination [OF p, of ?xs 3] t by simp
  from p t inside beyond show ?thesis by simp
qed

text \<open>
  Where the claim as stated fails: the empty list has 0 pages, not 1; and with three
  items and two per page, page 5 is the empty list, not the items of page 2, the
  nearest valid page.
\<close>

theorem pagination_counterexample:
  "totalPages ITEMS_PER_PAGE ([] :: RankedInvestment list) \<noteq> 1
   \<and> totalPages 2 [sampleInvestment ''TCS'' ''NSE'' ''stock'' ''9'',
                    sampleInvestment ''AAPL'' ''US'' ''etf'' ''10'',
                    sampleInvestment ''INFY'' ''NSE'' ''stock'' ''8''] = 2
   \<and> paginatedInvestments 2 5 [sampleInvestment ''TCS'' ''NSE'' ''stock'' ''9'',
                    sampleInvestment ''AAPL'' ''US'' ''etf'' ''10'',
                    sampleInvestment ''INFY'' ''NSE'' ''stock'' ''8''] = []
   \<and> paginatedInvestments 2 2 [sampleInvestment ''TCS'' ''NSE'' ''stock'' ''9'',
                    sampleInvestment ''AAPL'' ''US'' ''etf'' ''10'',
                    sampleInvestment ''INFY'' ''NSE'' ''stock'' ''8'']
       = [sampleInvestment ''INFY'' ''NSE'' ''stock'' ''8'']"
  using ceiling_divide_eq_div [where 'a = rat, of 3 2]
  by (simp add: totalPages_def paginatedInvestments_def slice_def)

text \<open>The clamping is in the two page buttons: they keep a page that is in range in
  range.\<close>

lemma page_buttons_stay_in_range:
  assumes "1 \<le> page" and "page \<le> pages"
  shows "1 \<le> previousPage page \<and> previousPage page \<le> pages
         \<and> 1 \<le> nextPage pages page \<and> nextPage pages page \<le> pages"
  using assms by (simp add: previousPage_def nextPage_def)

section \<open>Properties of the score conversions\<close>

subsection \<open>Rounding to binary64\<close>



lemma two_powi_pos: "(0::rat) < 2 powi e"
  by simp












subsection \<open>The two conversions\<close>







text \<open>The roundings are those of the program: for \<^verbatim>\<open>8.7\<close> the result is the binary64
  number \<^verbatim>\<open>86.99999999999999\<close>, not 87.\<close>

lemma scoreToPercentage_rounds:
  "parseFloat ''8.7'' = Fin (2448832297382707 / 281474976710656)
   \<and> scoreToPercentage ''8.7'' = Fin (6122080743456767 / 70368744177664)"
  by code_simp

text \<open>The entry \<^verbatim>\<open>'N/A': 0\<close> of the table is falsy, so \<^verbatim>\<open>map[pillar] || 50\<close> gives 50 for
  it; and the name of an inherited member is returned as that member.\<close>

lemma pillarToPercentage_not_available: "pillarToPercentage ''N/A'' = Percent 50"
  by (simp add: pillarToPercentage_def pillarMap_def)

lemma pillarToPercentage_inherited:
  "pillarToPercentage ''toString'' = InheritedMember ''toString''"
  by (simp add: pillarToPercentage_def pillarMap_def objectPrototypeKeys_def)

section \<open>The derivation does not change what it reads\<close>

text \<open>
  Claim C8. Rendering the table (filter, sort, paginate) leaves every array that
  existed before as it was, in particular the stored list of investments: the sort
  works on the array that \<^verbatim>\<open>filter\<close> has just allocated. The page and the number of
  pages are those of the functional description, so rendering a second time, from the
  store the first rendering left, yields the same page and the same number of pages.
\<close>

theorem derivation_is_pure:
  assumes "case ri of None \<Rightarrow> storedInvestments s = None
           | Some a \<Rightarrow> a < length h \<and> storedInvestments s = Some (h ! a)"
    and "renderTable p s ri h = ((page1, pages1), h1)"
    and "renderTable p s ri h1 = ((page2, pages2), h2)"
  shows "take (length h) h1 = h \<and> take (length h) h2 = h
         \<and> h1 ! page1 = paginatedInvestments p (currentPage s) (getFilteredAndSortedInvestments s)
         \<and> pages1 = totalPages p (getFilteredAndSortedInvestments s)
         \<and> h2 ! page2 = h1 ! page1 \<and> pages2 = pages1"
proof (cases ri)
  case None
  then show ?thesis
    using assms
    by (auto simp add: renderTable_def getFilteredAndSortedInvestments_store_def
          array_slice_def Let_def nth_append getFilteredAndSortedInvestments_stages
          paginatedInvestments_def sortBy_def)
next
  case (Some a)
  then show ?thesis
    using assms
    by (auto simp add: renderTable_def getFilteredAndSortedInvestments_store_def
          array_filter_def array_sort_def array_slice_def Let_def nth_append
          getFilteredAndSortedInvestments_stages paginatedInvestments_def)
qed

theorem derivation_is_pure_witness:
  "(0::nat) < length sampleStore
   \<and> storedInvestments sampleState = Some (sampleStore ! 0)
   \<and> fst (renderTable ITEMS_PER_PAGE sampleState (Some 0) sampleStore) = (2, 1)
   \<and> take 1 (snd (renderTable ITEMS_PER_PAGE sampleState (Some 0) sampleStore)) = sampleStore
   \<and> snd (renderTable ITEMS_PER_PAGE sampleState (Some 0) sampleStore) ! 2
       = [sampleInvestment ''AAPL'' ''US'' ''etf'' ''10'',
          sampleInvestment ''TCS'' ''NSE'' ''stock'' ''9'']
   \<and> fst (renderTable ITEMS_PER_PAGE sampleState (Some 0)
             (snd (renderTable ITEMS_PER_PAGE sampleState (Some 0) sampleStore))) = (4, 1)
   \<and> snd (renderTable ITEMS_PER_PAGE sampleState (Some 0)
             (snd (renderTable ITEMS_PER_PAGE sampleState (Some 0) sampleStore))) ! 4
       = [sampleInvestment ''AAPL'' ''US'' ''etf'' ''10'',
          sampleInvestment ''TCS'' ''NSE'' ''stock'' ''9'']"
proof -
  let ?sorted = "[sampleInvestment ''AAPL'' ''US'' ''etf'' ''10'',
                  sampleInvestment ''TCS'' ''NSE'' ''stock'' ''9'']"
  have stored: "case Some (0::nat) of None \<Rightarrow> storedInvestments sampleState = None
                | Some a \<Rightarrow> a < length sampleStore
                            \<and> storedInvestments sampleState = Some (sampleStore ! a)"
    by (simp add: sampleStore_def sampleState_def storedInvestments_def sampleResult_def)
  have first: "renderTable ITEMS_PER_PAGE sampleState (Some 0) sampleStore
                 = ((2, 1), sampleStore @ [?sorted, ?sorted])"
    by code_simp
  have second: "renderTable ITEMS_PER_PAGE sampleState (Some 0) (sampleStore @ [?sorted, ?sorted])
                 = ((4, 1), sampleStore @ [?sorted, ?sorted, ?sorted, ?sorted])"
    by code_simp
  show ?thesis
    using stored first second derivation_is_pure [OF stored first second]
    by (simp add: sampleStore_def)
qed

section \<open>Properties of the sort\<close>

subsection \<open>The insertion sort for any comparator\<close>

lemma mset_insertBy: "mset (insertBy cmp x ys) = add_mset x (mset ys)"
  by (induction ys) simp_all

lemma mset_sortBy: "mset (sortBy cmp xs) = mset xs"
  by (induction xs) (simp_all add: sortBy_def mset_insertBy)

lemma set_insertBy: "set (insertBy cmp x ys) = insert x (set ys)"
  by (induction ys) auto

lemma set_sortBy: "set (sortBy cmp xs) = set xs"
  by (induction xs) (simp_all add: sortBy_def set_insertBy)

lemma sortBy_Cons: "sortBy cmp (x # xs) = insertBy cmp x (sortBy cmp xs)"
  by (simp add: sortBy_def)

lemma filter_insertBy_other:
  "\<not> P x \<Longrightarrow> filter P (insertBy cmp x ys) = filter P ys"
  by (induction ys) simp_all

text \<open>An element is never moved behind one it does not compare greater than.\<close>

lemma filter_insertBy_first:
  assumes "P x" and "\<forall>y\<in>set ys. P y \<longrightarrow> cmp x y \<le> 0"
  shows "filter P (insertBy cmp x ys) = x # filter P ys"
  using assms
proof (induction ys)
  case Nil
  then show ?case by simp
next
  case (Cons y ys)
  then have IH: "filter P (insertBy cmp x ys) = x # filter P ys" by simp
  show ?case
  proof (cases "cmp x y \<le> 0")
    case True
    then show ?thesis using Cons.prems(1) by simp
  next
    case False
    then have "\<not> P y" using Cons.prems(2) by auto
    then show ?thesis using False IH by simp
  qed
qed

lemma sortBy_keeps_ties:
  assumes ties: "\<And>x y. x \<in> set xs \<Longrightarrow> y \<in> set xs \<Longrightarrow> P x \<Longrightarrow> P y \<Longrightarrow> cmp x y \<le> 0"
  shows "filter P (sortBy cmp xs) = filter P xs"
  using ties
proof (induction xs)
  case Nil
  show ?case by (simp add: sortBy_def)
next
  case (Cons x xs)
  have IH: "filter P (sortBy cmp xs) = filter P xs"
  proof (rule Cons.IH)
    fix a b
    assume "a \<in> set xs" "b \<in> set xs" "P a" "P b"
    then show "cmp a b \<le> 0" using Cons.prems [of a b] by simp
  qed
  show ?case
  proof (cases "P x")
    case True
    have "\<forall>y\<in>set (sortBy cmp xs). P y \<longrightarrow> cmp x y \<le> 0"
    proof (intro ballI impI)
      fix y
      assume "y \<in> set (sortBy cmp xs)" "P y"
      then show "cmp x y \<le> 0" using Cons.prems [of x y] True by (simp add: set_sortBy)
    qed
    then show ?thesis
      using True IH by (simp add: sortBy_Cons filter_insertBy_first)
  next
    case False
    then show ?thesis
      using IH by (simp add: sortBy_Cons filter_insertBy_other)
  qed
qed

lemma sorted_wrt_insertBy:
  assumes tot: "\<And>y. y \<in> set ys \<Longrightarrow> 0 < cmp x y \<Longrightarrow> cmp y x \<le> 0"
    and trans: "\<And>y z. y \<in> set ys \<Longrightarrow> z \<in> set ys \<Longrightarrow> cmp x y \<le> 0 \<Longrightarrow> cmp y z \<le> 0
                  \<Longrightarrow> cmp x z \<le> 0"
    and sorted: "sorted_wrt (\<lambda>a b. cmp a b \<le> 0) ys"
  shows "sorted_wrt (\<lambda>a b. cmp a b \<le> 0) (insertBy cmp x ys)"
  using assms
proof (induction ys)
  case Nil
  show ?case by simp
next
  case (Cons y ys)
  have sorted_tl: "sorted_wrt (\<lambda>a b. cmp a b \<le> 0) ys"
    and y_le: "\<And>z. z \<in> set ys \<Longrightarrow> cmp y z \<le> 0"
    using Cons.prems(3) by simp_all
  show ?case
  proof (cases "cmp x y \<le> 0")
    case True
    have "cmp x z \<le> 0" if "z \<in> set ys" for z
      using Cons.prems(2) [of y z] True y_le [OF that] that by simp
    then show ?thesis using True Cons.prems(3) by simp
  next
    case False
    then have yx: "cmp y x \<le> 0" using Cons.prems(1) [of y] by simp
    have IH: "sorted_wrt (\<lambda>a b. cmp a b \<le> 0) (insertBy cmp x ys)"
    proof (rule Cons.IH [OF _ _ sorted_tl])
      fix z assume "z \<in> set ys" "0 < cmp x z"
      then show "cmp z x \<le> 0" using Cons.prems(1) [of z] by simp
    next
      fix u z assume "u \<in> set ys" "z \<in> set ys" "cmp x u \<le> 0" "cmp u z \<le> 0"
      then show "cmp x z \<le> 0" using Cons.prems(2) [of u z] by simp
    qed
    have "\<forall>z\<in>set (insertBy cmp x ys). cmp y z \<le> 0"
      using yx y_le by (simp add: set_insertBy)
    then show ?thesis using False IH by simp
  qed
qed

lemma sorted_wrt_sortBy:
  assumes tot: "\<And>x y. x \<in> set xs \<Longrightarrow> y \<in> set xs \<Longrightarrow> 0 < cmp x y \<Longrightarrow> cmp y x \<le> 0"
    and trans: "\<And>x y z. x \<in> set xs \<Longrightarrow> y \<in> set xs \<Longrightarrow> z \<in> set xs \<Longrightarrow>
                  cmp x y \<le> 0 \<Longrightarrow> cmp y z \<le> 0 \<Longrightarrow> cmp x z \<le> 0"
  shows "sorted_wrt (\<lambda>a b. cmp a b \<le> 0) (sortBy cmp xs)"
  using assms
proof (induction xs)
  case Nil
  show ?case by (simp add: sortBy_def)
next
  case (Cons x xs)
  have IH: "sorted_wrt (\<lambda>a b. cmp a b \<le> 0) (sortBy cmp xs)"
  proof (rule Cons.IH)
    fix a b assume "a \<in> set xs" "b \<in> set xs" "0 < cmp a b"
    then show "cmp b a \<le> 0" using Cons.prems(1) [of a b] by simp
  next
    fix a b c
    assume "a \<in> set xs" "b \<in> set xs" "c \<in> set xs" "cmp a b \<le> 0" "cmp b c \<le> 0"
    then show "cmp a c \<le> 0" using Cons.prems(2) [of a b c] by simp
  qed
  show ?case
    unfolding sortBy_Cons
  proof (rule sorted_wrt_insertBy [OF _ _ IH])
    fix y assume "y \<in> set (sortBy cmp xs)" "0 < cmp x y"
    then show "cmp y x \<le> 0" using Cons.prems(1) [of x y] by (simp add: set_sortBy)
  next
    fix y z
    assume "y \<in> set (sortBy cmp xs)" "z \<in> set (sortBy cmp xs)" "cmp x y \<le> 0" "cmp y z \<le> 0"
    then show "cmp x z \<le> 0" using Cons.prems(2) [of x y z] by (simp add: set_sortBy)
  qed
qed

subsection \<open>The relational operator on values of one kind\<close>

lemma num_less_irrefl: "\<not> num_less n n"
  by (cases n) simp_all

lemma num_less_trans: "num_less a b \<Longrightarrow> num_less b c \<Longrightarrow> num_less a c"
  by (cases a; cases b; cases c) simp_all

lemma num_less_total: "a \<noteq> NaN \<Longrightarrow> b \<noteq> NaN \<Longrightarrow> num_less a b \<or> num_less b a \<or> a = b"
  by (cases a; cases b) auto

lemma js_less_irrefl: "\<not> js_less v v"
  by (cases v) (simp_all add: js_less_def toPrimitive_def num_less_irrefl)

lemma js_less_numbers: "js_less (VNumber m) (VNumber n) = num_less m n"
  by (simp add: js_less_def toPrimitive_def)

lemma js_less_strings: "js_less (VString s) (VString t) = (s < t)"
  by (simp add: js_less_def toPrimitive_def)

lemma js_less_trans:
  "sameKind u v \<Longrightarrow> sameKind v w \<Longrightarrow> js_less u v \<Longrightarrow> js_less v w \<Longrightarrow> js_less u w"
  by (cases u; cases v; cases w)
     (auto simp add: sameKind_def isNumber_def isString_def js_less_numbers js_less_strings
        intro: num_less_trans)

lemma js_less_total:
  "sameKind v w \<Longrightarrow> js_less v w \<or> js_less w v \<or> v = w"
  by (cases v; cases w)
     (auto simp add: sameKind_def isNumber_def isString_def js_less_numbers js_less_strings
        dest: num_less_total)

lemma sameKind_sym: "sameKind v w \<Longrightarrow> sameKind w v"
  by (auto simp add: sameKind_def)

lemma js_less_asym: "sameKind v w \<Longrightarrow> js_less v w \<Longrightarrow> \<not> js_less w v"
  using js_less_trans [of v w v] js_less_irrefl [of v] sameKind_sym [of v w] by blast

text \<open>\<open>not greater\<close> is transitive on values of one kind.\<close>

lemma js_not_greater_trans:
  assumes uv: "sameKind u v" and vw: "sameKind v w" and uw: "sameKind u w"
    and "\<not> js_less v u" and "\<not> js_less w v"
  shows "\<not> js_less w u"
proof
  assume wu: "js_less w u"
  from js_less_total [OF uv] assms(4) consider "js_less u v" | "u = v" by blast
  then show False
  proof cases
    case 1
    have "js_less w v"
      using js_less_trans [OF sameKind_sym [OF uw] uv wu 1] .
    with assms(5) show False by simp
  next
    case 2
    with wu assms(5) show False by simp
  qed
qed

subsection \<open>The comparator\<close>

lemma compare_asc_le:
  assumes "sameKind (sortValue k a) (sortValue k b)"
  shows "compareInvestments \<lparr>key = k, direction = asc\<rparr> a b \<le> 0
           \<longleftrightarrow> \<not> js_less (sortValue k b) (sortValue k a)"
  using js_less_asym [OF assms]
  by (auto simp add: compareInvestments_def Let_def)

lemma compare_desc_le:
  assumes "sameKind (sortValue k a) (sortValue k b)"
  shows "compareInvestments \<lparr>key = k, direction = desc\<rparr> a b \<le> 0
           \<longleftrightarrow> \<not> js_less (sortValue k a) (sortValue k b)"
  using js_less_asym [OF assms]
  by (auto simp add: compareInvestments_def Let_def)

lemma compare_equal_values:
  "sortValue (key cfg) a = sortValue (key cfg) b \<Longrightarrow> compareInvestments cfg a b = 0"
  by (simp add: compareInvestments_def Let_def js_less_irrefl)

lemma compare_desc_is_negated_asc:
  "compareInvestments \<lparr>key = k, direction = desc\<rparr> a b
     = - compareInvestments \<lparr>key = k, direction = asc\<rparr> a b"
  by (simp add: compareInvestments_def Let_def)

lemma uniformKeys_sameKind:
  "uniformKeys k xs \<Longrightarrow> a \<in> set xs \<Longrightarrow> b \<in> set xs \<Longrightarrow> sameKind (sortValue k a) (sortValue k b)"
  by (auto simp add: uniformKeys_def sameKind_def list_all_iff)

lemma sorted_on_uniform_keys:
  assumes "uniformKeys k xs"
  shows "sorted_wrt (\<lambda>a b. compareInvestments \<lparr>key = k, direction = d\<rparr> a b \<le> 0)
           (sortBy (compareInvestments \<lparr>key = k, direction = d\<rparr>) xs)"
proof (rule sorted_wrt_sortBy)
  fix x y
  assume "x \<in> set xs" "y \<in> set xs"
    and "0 < compareInvestments \<lparr>key = k, direction = d\<rparr> x y"
  then show "compareInvestments \<lparr>key = k, direction = d\<rparr> y x \<le> 0"
    using js_less_asym [OF uniformKeys_sameKind [OF assms, of x y]]
    by (cases d) (auto simp add: compareInvestments_def Let_def split: if_splits)
next
  fix x y z
  assume mem: "x \<in> set xs" "y \<in> set xs" "z \<in> set xs"
    and le: "compareInvestments \<lparr>key = k, direction = d\<rparr> x y \<le> 0"
            "compareInvestments \<lparr>key = k, direction = d\<rparr> y z \<le> 0"
  note xy = uniformKeys_sameKind [OF assms mem(1) mem(2)]
  note yz = uniformKeys_sameKind [OF assms mem(2) mem(3)]
  note xz = uniformKeys_sameKind [OF assms mem(1) mem(3)]
  show "compareInvestments \<lparr>key = k, direction = d\<rparr> x z \<le> 0"
  proof (cases d)
    case asc
    then show ?thesis
      using le js_not_greater_trans [OF xy yz xz]
      by (simp add: compare_asc_le xy yz xz)
  next
    case desc
    then show ?thesis
      using le js_not_greater_trans [OF sameKind_sym [OF yz] sameKind_sym [OF xy] sameKind_sym [OF xz]]
      by (simp add: compare_desc_le xy yz xz)
  qed
qed

lemma ties_keep_their_order:
  "filter (\<lambda>iv. sortValue (key cfg) iv = v) (sortBy (compareInvestments cfg) xs)
     = filter (\<lambda>iv. sortValue (key cfg) iv = v) xs"
  by (rule sortBy_keeps_ties) (simp add: compare_equal_values)

lemma coerce_numeric:
  "parseFloat s = Fin x \<Longrightarrow> x \<noteq> 0 \<Longrightarrow> coerce (VString s) = VNumber (Fin x)"
  by (simp add: coerce_def num_truthy_def)

lemma coerce_text:
  "parseFloat s = NaN \<Longrightarrow> coerce (VString s) = VString s"
  by (simp add: coerce_def num_truthy_def)

text \<open>
  Claim C5, as the code has it. For every key \<open>k\<close>, investments \<open>a\<close> and \<open>b\<close>, direction
  \<open>d\<close> and list \<open>xs\<close>:
  \<^item> the descending comparator is the negated ascending one;
  \<^item> two resolved strings whose numeric prefixes (\<^verbatim>\<open>parseFloat\<close>) are the non-zero
    numbers \<open>x\<close> and \<open>y\<close> compare as \<open>x\<close> and \<open>y\<close> do, whatever follows the prefix;
  \<^item> two resolved strings without a numeric prefix compare lexicographically;
  \<^item> the sorted list is a permutation of the input;
  \<^item> on a list whose sort values are all numbers or all strings, the result is in
    the order of the comparator, and the investments with one and the same sort value
    keep their input order, in both directions.
  Nothing is said of a number against a string, nor of strings whose numeric prefix
  is zero.
\<close>

theorem sort_comparison_and_stability:
  "compareInvestments \<lparr>key = k, direction = desc\<rparr> a b
     = - compareInvestments \<lparr>key = k, direction = asc\<rparr> a b
   \<and> (\<forall>s t x y. resolvePath k a = VString s \<and> resolvePath k b = VString t
          \<and> parseFloat s = Fin x \<and> parseFloat t = Fin y \<and> x \<noteq> 0 \<and> y \<noteq> 0 \<longrightarrow>
          compareInvestments \<lparr>key = k, direction = asc\<rparr> a b
            = (if x < y then - 1 else if y < x then 1 else 0))
   \<and> (\<forall>s t. resolvePath k a = VString s \<and> resolvePath k b = VString t
          \<and> parseFloat s = NaN \<and> parseFloat t = NaN \<longrightarrow>
          compareInvestments \<lparr>key = k, direction = asc\<rparr> a b
            = (if s < t then - 1 else if t < s then 1 else 0))
   \<and> mset (sortBy (compareInvestments \<lparr>key = k, direction = d\<rparr>) xs) = mset xs
   \<and> (uniformKeys k xs \<longrightarrow>
        sorted_wrt (\<lambda>a b. compareInvestments \<lparr>key = k, direction = d\<rparr> a b \<le> 0)
          (sortBy (compareInvestments \<lparr>key = k, direction = d\<rparr>) xs)
        \<and> (\<forall>v. filter (\<lambda>iv. sortValue k iv = v)
                   (sortBy (compareInvestments \<lparr>key = k, direction = d\<rparr>) xs)
                 = filter (\<lambda>iv. sortValue k iv = v) xs))"
proof -
  have numeric: "compareInvestments \<lparr>key = k, direction = asc\<rparr> a b
            = (if x < y then - 1 else if y < x then 1 else 0)"
    if "resolvePath k a = VString s" "resolvePath k b = VString t"
       "parseFloat s = Fin x" "parseFloat t = Fin y" "x \<noteq> 0" "y \<noteq> 0" for s t x y
    using that
    by (simp add: compareInvestments_def Let_def sortValue_def coerce_numeric js_less_numbers)
  have textual: "compareInvestments \<lparr>key = k, direction = asc\<rparr> a b
            = (if s < t then - 1 else if t < s then 1 else 0)"
    if "resolvePath k a = VString s" "resolvePath k b = VString t"
       "parseFloat s = NaN" "parseFloat t = NaN" for s t
    using that
    by (simp add: compareInvestments_def Let_def sortValue_def coerce_text js_less_strings)
  have ties: "filter (\<lambda>iv. sortValue k iv = v)
                   (sortBy (compareInvestments \<lparr>key = k, direction = d\<rparr>) xs)
                 = filter (\<lambda>iv. sortValue k iv = v) xs" for v
    using ties_keep_their_order [of "\<lparr>key = k, direction = d\<rparr>" v xs] by simp
  show ?thesis
    using compare_desc_is_negated_asc [of k a b] numeric textual mset_sortBy
      sorted_on_uniform_keys [of k xs d] ties
    by blast
qed

theorem sort_comparison_and_stability_witness:
  "resolvePath ''four_pillar_score.overall_score'' (sampleInvestment ''A'' ''NSE'' ''stock'' ''10'') = VString ''10'' \<and> parseFloat ''10'' = Fin 10
   \<and> resolvePath ''four_pillar_score.overall_score'' (sampleInvestment ''B'' ''NSE'' ''stock'' ''9'') = VString ''9'' \<and> parseFloat ''9'' = Fin 9
   \<and> compareInvestments \<lparr>key = ''four_pillar_score.overall_score'', direction = asc\<rparr> (sampleInvestment ''B'' ''NSE'' ''stock'' ''9'') (sampleInvestment ''A'' ''NSE'' ''stock'' ''10'') = - 1
   \<and> compareInvestments \<lparr>key = ''four_pillar_score.overall_score'', direction = desc\<rparr> (sampleInvestment ''B'' ''NSE'' ''stock'' ''9'') (sampleInvestment ''A'' ''NSE'' ''stock'' ''10'') = 1
   \<and> uniformKeys ''four_pillar_score.overall_score'' [sampleInvestment ''A'' ''NSE'' ''stock'' ''10'', sampleInvestment ''B'' ''NSE'' ''stock'' ''9'', sampleInvestment ''C'' ''NSE'' ''stock'' ''10.0'']
   \<and> sortBy (compareInvestments \<lparr>key = ''four_pillar_score.overall_score'', direction = asc\<rparr>) [sampleInvestment ''A'' ''NSE'' ''stock'' ''10'', sampleInvestment ''B'' ''NSE'' ''stock'' ''9'', sampleInvestment ''C'' ''NSE'' ''stock'' ''10.0''] = [sampleInvestment ''B'' ''NSE'' ''stock'' ''9'', sampleInvestment ''A'' ''NSE'' ''stock'' ''10'', sampleInvestment ''C'' ''NSE'' ''stock'' ''10.0'']
   \<and> sortBy (compareInvestments \<lparr>key = ''four_pillar_score.overall_score'', direction = desc\<rparr>) [sampleInvestment ''A'' ''NSE'' ''stock'' ''10'', sampleInvestment ''B'' ''NSE'' ''stock'' ''9'', sampleInvestment ''C'' ''NSE'' ''stock'' ''10.0''] = [sampleInvestment ''A'' ''NSE'' ''stock'' ''10'', sampleInvestment ''C'' ''NSE'' ''stock'' ''10.0'', sampleInvestment ''B'' ''NSE'' ''stock'' ''9'']
   \<and> filter (\<lambda>iv. sortValue ''four_pillar_score.overall_score'' iv = VNumber (Fin 10))
        (sortBy (compareInvestments \<lparr>key = ''four_pillar_score.overall_score'', direction = asc\<rparr>) [sampleInvestment ''A'' ''NSE'' ''stock'' ''10'', sampleInvestment ''B'' ''NSE'' ''stock'' ''9'', sampleInvestment ''C'' ''NSE'' ''stock'' ''10.0'']) = [sampleInvestment ''A'' ''NSE'' ''stock'' ''10'', sampleInvestment ''C'' ''NSE'' ''stock'' ''10.0'']
   \<and> filter (\<lambda>iv. sortValue ''four_pillar_score.overall_score'' iv = VNumber (Fin 10))
        (sortBy (compareInvestments \<lparr>key = ''four_pillar_score.overall_score'', direction = desc\<rparr>) [sampleInvestment ''A'' ''NSE'' ''stock'' ''10'', sampleInvestment ''B'' ''NSE'' ''stock'' ''9'', sampleInvestment ''C'' ''NSE'' ''stock'' ''10.0'']) = [sampleInvestment ''A'' ''NSE'' ''stock'' ''10'', sampleInvestment ''C'' ''NSE'' ''stock'' ''10.0'']"
proof -
  have ra: "resolvePath ''four_pillar_score.overall_score'' (sampleInvestment ''A'' ''NSE'' ''stock'' ''10'') = VString ''10''"
    by (simp add: resolvePath_def investmentObject_def sampleInvestment_def)
  have rb: "resolvePath ''four_pillar_score.overall_score'' (sampleInvestment ''B'' ''NSE'' ''stock'' ''9'') = VString ''9''"
    by (simp add: resolvePath_def investmentObject_def sampleInvestment_def)
  have pa: "parseFloat ''10'' = Fin 10" by code_simp
  have pb: "parseFloat ''9'' = Fin 9" by code_simp
  have uniform: "uniformKeys ''four_pillar_score.overall_score'' [sampleInvestment ''A'' ''NSE'' ''stock'' ''10'', sampleInvestment ''B'' ''NSE'' ''stock'' ''9'', sampleInvestment ''C'' ''NSE'' ''stock'' ''10.0'']" by code_simp
  have up: "sortBy (compareInvestments \<lparr>key = ''four_pillar_score.overall_score'', direction = asc\<rparr>) [sampleInvestment ''A'' ''NSE'' ''stock'' ''10'', sampleInvestment ''B'' ''NSE'' ''stock'' ''9'', sampleInvestment ''C'' ''NSE'' ''stock'' ''10.0''] = [sampleInvestment ''B'' ''NSE'' ''stock'' ''9'', sampleInvestment ''A'' ''NSE'' ''stock'' ''10'', sampleInvestment ''C'' ''NSE'' ''stock'' ''10.0'']"
    by code_simp
  have down: "sortBy (compareInvestments \<lparr>key = ''four_pillar_score.overall_score'', direction = desc\<rparr>) [sampleInvestment ''A'' ''NSE'' ''stock'' ''10'', sampleInvestment ''B'' ''NSE'' ''stock'' ''9'', sampleInvestment ''C'' ''NSE'' ''stock'' ''10.0''] = [sampleInvestment ''A'' ''NSE'' ''stock'' ''10'', sampleInvestment ''C'' ''NSE'' ''stock'' ''10.0'', sampleInvestment ''B'' ''NSE'' ''stock'' ''9'']"
    by code_simp
  have tens: "filter (\<lambda>iv. sortValue ''four_pillar_score.overall_score'' iv = VNumber (Fin 10)) [sampleInvestment ''A'' ''NSE'' ''stock'' ''10'', sampleInvestment ''B'' ''NSE'' ''stock'' ''9'', sampleInvestment ''C'' ''NSE'' ''stock'' ''10.0''] = [sampleInvestment ''A'' ''NSE'' ''stock'' ''10'', sampleInvestment ''C'' ''NSE'' ''stock'' ''10.0'']"
    by code_simp
  note asc_facts = sort_comparison_and_stability
    [where k = "''four_pillar_score.overall_score''" and a = "sampleInvestment ''B'' ''NSE'' ''stock'' ''9''" and b = "sampleInvestment ''A'' ''NSE'' ''stock'' ''10''" and d = asc and xs = "[sampleInvestment ''A'' ''NSE'' ''stock'' ''10'', sampleInvestment ''B'' ''NSE'' ''stock'' ''9'', sampleInvestment ''C'' ''NSE'' ''stock'' ''10.0'']"]
  note desc_facts = sort_comparison_and_stability
    [where k = "''four_pillar_score.overall_score''" and a = "sampleInvestment ''B'' ''NSE'' ''stock'' ''9''" and b = "sampleInvestment ''A'' ''NSE'' ''stock'' ''10''" and d = desc and xs = "[sampleInvestment ''A'' ''NSE'' ''stock'' ''10'', sampleInvestment ''B'' ''NSE'' ''stock'' ''9'', sampleInvestment ''C'' ''NSE'' ''stock'' ''10.0'']"]
  have "compareInvestments \<lparr>key = ''four_pillar_score.overall_score'', direction = asc\<rparr> (sampleInvestment ''B'' ''NSE'' ''stock'' ''9'') (sampleInvestment ''A'' ''NSE'' ''stock'' ''10'')
          = (if (9::rat) < 10 then - 1 else if (10::rat) < 9 then 1 else 0)"
    using asc_facts ra rb pa pb by force
  then have nine_first: "compareInvestments \<lparr>key = ''four_pillar_score.overall_score'', direction = asc\<rparr> (sampleInvestment ''B'' ''NSE'' ''stock'' ''9'') (sampleInvestment ''A'' ''NSE'' ''stock'' ''10'') = - 1"
    by simp
  have flipped: "compareInvestments \<lparr>key = ''four_pillar_score.overall_score'', direction = desc\<rparr> (sampleInvestment ''B'' ''NSE'' ''stock'' ''9'') (sampleInvestment ''A'' ''NSE'' ''stock'' ''10'') = 1"
    using asc_facts nine_first by simp
  have ties_up: "filter (\<lambda>iv. sortValue ''four_pillar_score.overall_score'' iv = VNumber (Fin 10))
        (sortBy (compareInvestments \<lparr>key = ''four_pillar_score.overall_score'', direction = asc\<rparr>) [sampleInvestment ''A'' ''NSE'' ''stock'' ''10'', sampleInvestment ''B'' ''NSE'' ''stock'' ''9'', sampleInvestment ''C'' ''NSE'' ''stock'' ''10.0'']) = [sampleInvestment ''A'' ''NSE'' ''stock'' ''10'', sampleInvestment ''C'' ''NSE'' ''stock'' ''10.0'']"
    using asc_facts uniform tens by simp
  have ties_down: "filter (\<lambda>iv. sortValue ''four_pillar_score.overall_score'' iv = VNumber (Fin 10))
        (sortBy (compareInvestments \<lparr>key = ''four_pillar_score.overall_score'', direction = desc\<rparr>) [sampleInvestment ''A'' ''NSE'' ''stock'' ''10'', sampleInvestment ''B'' ''NSE'' ''stock'' ''9'', sampleInvestment ''C'' ''NSE'' ''stock'' ''10.0'']) = [sampleInvestment ''A'' ''NSE'' ''stock'' ''10'', sampleInvestment ''C'' ''NSE'' ''stock'' ''10.0'']"
    using desc_facts uniform tens by simp
  from ra rb pa pb nine_first flipped uniform up down ties_up ties_down
  show ?thesis by simp
qed

text \<open>
  Where the claim as stated fails. The scores \<^verbatim>\<open>8.5/10\<close> and \<^verbatim>\<open>10/10\<close> are not decimal
  numbers as a whole, and lexicographically \<^verbatim>\<open>10/10\<close> is the smaller string; the
  comparator reads the prefixes 8.5 and 10 and orders \<^verbatim>\<open>8.5/10\<close> first when ascending.
\<close>

theorem sort_comparison_counterexample:
  "stringToNumber ''8.5/10'' = NaN \<and> stringToNumber ''10/10'' = NaN
   \<and> ''10/10'' < ''8.5/10''
   \<and> compareInvestments \<lparr>key = ''four_pillar_score.overall_score'', direction = asc\<rparr>
        (sampleInvestment ''A'' ''NSE'' ''stock'' ''8.5/10'')
        (sampleInvestment ''B'' ''NSE'' ''stock'' ''10/10'') = - 1
   \<and> sortBy (compareInvestments \<lparr>key = ''four_pillar_score.overall_score'', direction = asc\<rparr>)
        [sampleInvestment ''B'' ''NSE'' ''stock'' ''10/10'',
         sampleInvestment ''A'' ''NSE'' ''stock'' ''8.5/10'']
       = [sampleInvestment ''A'' ''NSE'' ''stock'' ''8.5/10'',
          sampleInvestment ''B'' ''NSE'' ''stock'' ''10/10'']"
  by code_simp

text \<open>The two cases the theorem leaves out: a number against a string that is not
  numeric compares as equal in both orders (each comparison involves \<^verbatim>\<open>NaN\<close>); and
  \<^verbatim>\<open>parseFloat(aVal) || aVal\<close> keeps a string whose value is zero as a string, so two
  such strings compare lexicographically.\<close>

lemma compare_number_with_text:
  "compareInvestments \<lparr>key = ''four_pillar_score.overall_score'', direction = asc\<rparr>
     (sampleInvestment ''A'' ''NSE'' ''stock'' ''N/A'')
     (sampleInvestment ''B'' ''NSE'' ''stock'' ''10'') = 0
   \<and> compareInvestments \<lparr>key = ''four_pillar_score.overall_score'', direction = asc\<rparr>
     (sampleInvestment ''B'' ''NSE'' ''stock'' ''10'')
     (sampleInvestment ''A'' ''NSE'' ''stock'' ''N/A'') = 0"
  by code_simp

lemma compare_zero_strings:
  "compareInvestments \<lparr>key = ''four_pillar_score.overall_score'', direction = asc\<rparr>
     (sampleInvestment ''A'' ''NSE'' ''stock'' ''0'')
     (sampleInvestment ''B'' ''NSE'' ''stock'' ''0.0'') = - 1"
  by code_simp

end
